theory Spec2Isabelle
  imports Complex_Main "HOL-Library.Word" "HOL-Library.AList"
begin

section \<open>Strings\<close>

text \<open>
  A JavaScript string is a sequence of UTF-16 code units, and \<open>trim\<close>, \<open>replace\<close>,
  \<open>endsWith\<close> and truthiness work on code units. Literals of the source that are
  plain ASCII are written \<open>ascii ''...''\<close>; the others are spelled out as code units
  (an emoji is a surrogate pair).
\<close>

type_synonym jsstring = "16 word list"

definition ascii :: "string \<Rightarrow> jsstring" where
  "ascii s = map of_char s"

text \<open>The message of a missing server address ("please set the Komari server address").\<close>
definition msgConfigMissing :: jsstring where
  "msgConfigMissing = [0x8BF7, 0x5728, 0x914D, 0x7F6E, 0x4E2D, 0x8BBE, 0x7F6E] @ ascii '' Komari ''
     @ [0x670D, 0x52A1, 0x5668, 0x5730, 0x5740]"

text \<open>The prefix of an HTTP status error ("API request error: ").\<close>
definition msgHttpError :: jsstring where
  "msgHttpError = ascii ''API '' @ [0x8BF7, 0x6C42, 0x9519, 0x8BEF] @ ascii '': ''"

text \<open>The prefix of the version report ("Komari version: ").\<close>
definition msgVersion :: jsstring where
  "msgVersion = ascii ''Komari '' @ [0x7248, 0x672C] @ ascii '': ''"

text \<open>The public-settings report: the fallbacks "unknown" and "default", and the labels
  "site name: ", "description: " and "theme: ".\<close>
definition msgUnknown :: jsstring where
  "msgUnknown = [0x672A, 0x77E5]"

definition msgDefault :: jsstring where
  "msgDefault = [0x9ED8, 0x8BA4]"

definition msgSitename :: jsstring where
  "msgSitename = [0x7AD9, 0x70B9, 0x540D, 0x79F0] @ ascii '': ''"

definition msgDescription :: jsstring where
  "msgDescription = [0x63CF, 0x8FF0] @ ascii '': ''"

definition msgTheme :: jsstring where
  "msgTheme = [0x4E3B, 0x9898] @ ascii '': ''"

text \<open>"API call failed: ", "unknown error" and "no node found.".\<close>
definition msgApiFailed :: jsstring where
  "msgApiFailed = ascii ''API '' @ [0x8C03, 0x7528, 0x5931, 0x8D25] @ ascii '': ''"

definition msgUnknownError :: jsstring where
  "msgUnknownError = [0x672A, 0x77E5, 0x9519, 0x8BEF]"

definition msgNoNodes :: jsstring where
  "msgNoNodes = [0x672A, 0x627E, 0x5230, 0x4EFB, 0x4F55, 0x8282, 0x70B9, 0x3002]"

text \<open>The node-list report: header, pin, the two status icons and the line labels.\<close>
definition msgNodesHeader :: jsstring where
  "msgNodesHeader = [0xD83D, 0xDDA5, 0xFE0F] @ ascii '' Komari '' @ [0x670D, 0x52A1, 0x5668, 0x72B6, 0x6001]"

definition pin :: jsstring where
  "pin = [0xD83D, 0xDCCC] @ ascii '' ''"

definition iconOnline :: jsstring where
  "iconOnline = [0xD83D, 0xDFE2]"

definition iconOffline :: jsstring where
  "iconOffline = [0xD83D, 0xDD34]"

definition lblSystem :: jsstring where
  "lblSystem = ascii ''   '' @ [0x7CFB, 0x7EDF] @ ascii '': ''"

definition lblMemory :: jsstring where
  "lblMemory = ascii ''   '' @ [0x5185, 0x5B58] @ ascii '': ''"

definition lblDisk :: jsstring where
  "lblDisk = ascii ''   '' @ [0x78C1, 0x76D8] @ ascii '': ''"

definition lblUpdated :: jsstring where
  "lblUpdated = ascii ''   '' @ [0x66F4, 0x65B0] @ ascii '': ''"

text \<open>The realtime report.\<close>
definition msgRealtimeHeader :: jsstring where
  "msgRealtimeHeader = [0xD83D, 0xDCCA] @ ascii '' Komari '' @ [0x5B9E, 0x65F6, 0x72B6, 0x6001]"

definition msgUnknownNode :: jsstring where
  "msgUnknownNode = [0x672A, 0x77E5, 0x8282, 0x70B9]"

definition lblNetwork :: jsstring where
  "lblNetwork = ascii ''   '' @ [0x7F51, 0x7EDC] @ ascii '': '' @ [0x2191]"

definition lblDown :: jsstring where
  "lblDown = ascii '' '' @ [0x2193]"

definition lblUptime :: jsstring where
  "lblUptime = ascii ''   '' @ [0x8FD0, 0x884C] @ ascii '': ''"

definition lblLoad :: jsstring where
  "lblLoad = ascii ''   '' @ [0x8D1F, 0x8F7D] @ ascii '': ''"

definition lblDays :: jsstring where
  "lblDays = [0x5929] @ ascii '' ''"

definition lblHours :: jsstring where
  "lblHours = [0x5C0F, 0x65F6]"

definition msgNoData :: jsstring where
  "msgNoData = [0x672A, 0x83B7, 0x53D6, 0x5230, 0x6570, 0x636E, 0xFF0C, 0x8BF7, 0x68C0, 0x67E5,
     0x670D, 0x52A1, 0x72B6, 0x6001, 0x3002]"

definition msgConnectFailed :: jsstring where
  "msgConnectFailed = [0x8FDE, 0x63A5, 0x5931, 0x8D25] @ ascii '': ''"

definition msgTimeout :: jsstring where
  "msgTimeout = [0x5B9E, 0x65F6, 0x6570, 0x636E, 0x8D85, 0x65F6]"

subsection \<open>String operations of the runtime\<close>

text \<open>
  \<open>String.prototype.trim\<close> removes WhiteSpace and LineTerminator code points from both
  ends: TAB, LF, VT, FF, CR, SP, NBSP, U+1680, U+2000..U+200A, U+2028, U+2029, U+202F,
  U+205F, U+3000 and U+FEFF. All of them are single code units.
\<close>

definition isWhiteSpace :: "16 word \<Rightarrow> bool" where
  "isWhiteSpace c \<longleftrightarrow>
     c = 0x0009 \<or> c = 0x000A \<or> c = 0x000B \<or> c = 0x000C \<or> c = 0x000D \<or> c = 0x0020 \<or>
     c = 0x00A0 \<or> c = 0x1680 \<or> (0x2000 \<le> c \<and> c \<le> 0x200A) \<or> c = 0x2028 \<or> c = 0x2029 \<or>
     c = 0x202F \<or> c = 0x205F \<or> c = 0x3000 \<or> c = 0xFEFF"

definition trim :: "jsstring \<Rightarrow> jsstring" where
  "trim s = rev (dropWhile isWhiteSpace (rev (dropWhile isWhiteSpace s)))"

text \<open>\<open>s.endsWith(p)\<close>.\<close>
definition endsWith :: "jsstring \<Rightarrow> jsstring \<Rightarrow> bool" where
  "endsWith s p \<longleftrightarrow> length p \<le> length s \<and> drop (length s - length p) s = p"

text \<open>
  \<open>s.replace(p, r)\<close> with a string pattern replaces the first occurrence only. (No
  replacement string of the source contains \<open>$\<close>.)
\<close>
fun replaceFirst :: "jsstring \<Rightarrow> jsstring \<Rightarrow> jsstring \<Rightarrow> jsstring" where
  "replaceFirst p r [] = (if p = [] then r else [])"
| "replaceFirst p r (c # cs) =
     (if take (length p) (c # cs) = p then r @ drop (length p) (c # cs)
      else c # replaceFirst p r cs)"

text \<open>\<open>s.replace(/\/+$/, '')\<close>: the run of slashes at the end is removed.\<close>
definition stripTrailingSlashes :: "jsstring \<Rightarrow> jsstring" where
  "stripTrailingSlashes s = rev (dropWhile (\<lambda>c. c = 0x002F) (rev s))"

text \<open>\<open>lines.join(sep)\<close> on an array of strings.\<close>
fun joinWith :: "jsstring \<Rightarrow> jsstring list \<Rightarrow> jsstring" where
  "joinWith sep [] = []"
| "joinWith sep [x] = x"
| "joinWith sep (x # y # ys) = x @ sep @ joinWith sep (y # ys)"

text \<open>\<open>s.padStart(2, '0')\<close>.\<close>
definition padStart2 :: "jsstring \<Rightarrow> jsstring" where
  "padStart2 s = replicate (2 - length s) 0x0030 @ s"

section \<open>Values\<close>

text \<open>
  The values the program handles are the ones \<open>JSON.parse\<close> builds, \<open>undefined\<close> for a
  property that is not there, and the built-in objects that a read by a computed key
  can find on the prototype chain (see below). A number stands for the exact value of
  the IEEE double; a JSON number too large for a double, which \<open>JSON.parse\<close> reads as
  \<open>Infinity\<close>, has no counterpart here. Comparison, the difference and sum of millisecond
  counts, division by a power of two and \<open>toFixed\<close> are exact on doubles (\<open>toFixed\<close> is
  defined on the exact value), and so is the division of a millisecond difference by
  1000 as far as the test against 600 goes. The two quotients that doubles round,
  \<open>used / total * 100\<close> (stored and never shown) and the \<open>sec / 86400\<close> of the uptime,
  are written as exact quotients; for a whole number of seconds below \<open>2^53\<close> the floor
  is the same.

  An object built by \<open>JSON.parse\<close> is the list of its own properties, and its prototype
  is \<open>Object.prototype\<close> (\<open>Array.prototype\<close> for an array). The names the source reads
  as literals (\<open>data\<close>, \<open>status\<close>, \<open>message\<close>, \<open>version\<close>, \<open>hash\<close>, \<open>sitename\<close>,
  \<open>description\<close>, \<open>theme\<close>, \<open>updated_at\<close>, \<open>updated_at_cn\<close>, \<open>is_online\<close>, \<open>online\<close>,
  \<open>uuid\<close>, \<open>id\<close>, \<open>name\<close>, \<open>region\<close>, \<open>os\<close>, \<open>cpu_name\<close>, \<open>cpu_cores\<close>, \<open>mem_total\<close>,
  \<open>disk_total\<close>, \<open>cpu\<close>, \<open>usage\<close>, \<open>ram\<close>, \<open>disk\<close>, \<open>used\<close>, \<open>total\<close>, \<open>network\<close>, \<open>up\<close>,
  \<open>down\<close>, \<open>totalUp\<close>, \<open>totalDown\<close>, \<open>uptime\<close>, \<open>load\<close>, \<open>load1\<close>, \<open>load5\<close>, \<open>load15\<close> and
  the derived fields) are properties of neither prototype, so reading one of them is
  reading an own property. The two reads by a computed key, \<open>details[uuid]\<close> and
  \<open>staticNodes[lookup]\<close>, take any string as the name and do reach the prototypes:
  they have a section of their own.

  \<open>JFun p k\<close> is the built-in function found under the name \<open>k\<close> on the prototype \<open>p\<close>
  (for \<open>constructor\<close>, the function \<open>Object\<close> or \<open>Array\<close>), and \<open>JProto p\<close> is the prototype
  object itself. They come from those two reads only and never occur inside parsed
  JSON. The built-in objects are taken as the language defines them, not changed by
  other code running in the same process.
\<close>

datatype proto = ObjectPrototype | ArrayPrototype

datatype js =
    JUndefined
  | JNull
  | JBool bool
  | JNum rat
  | JStr jsstring
  | JArr "js list"
  | JObj "(jsstring \<times> js) list"
  | JFun proto jsstring
  | JProto proto

text \<open>
  What the program's own steps can throw, by kind. (The errors of \<open>fetch\<close> and of the
  socket arrive as their text, see below.)
\<close>
datatype exn = TypeError | SyntaxError

text \<open>The result of arithmetic on coerced values.\<close>
datatype jsnum = Fin rat | NaN | PosInf | NegInf

text \<open>
  What the JavaScript runtime supplies and this repository does not define:
  \<open>Number::toString\<close> outside the safe integers, the string-to-number coercion,
  \<open>Date.parse\<close> (\<open>None\<close> is \<open>NaN\<close>), the UTC calendar fields of a time value
  (year, month from 0, day, hours, minutes, seconds; \<open>None\<close> for an invalid date),
  \<open>JSON.parse\<close> (\<open>None\<close> is a SyntaxError), the text of the runtime's own errors, and
  the names of the methods of \<open>Array.prototype\<close>, which grow with the version of the
  language.
\<close>
record runtime =
  numberText :: "rat \<Rightarrow> jsstring"
  stringToNumber :: "jsstring \<Rightarrow> jsnum"
  dateParse :: "jsstring \<Rightarrow> int option"
  utcFields :: "int \<Rightarrow> (int \<times> int \<times> int \<times> int \<times> int \<times> int) option"
  jsonParse :: "jsstring \<Rightarrow> js option"
  typeErrorText :: jsstring
  syntaxErrorText :: jsstring
  arrayMethods :: "jsstring list"

text \<open>\<open>String(e)\<close> for a caught error.\<close>
fun errorString :: "runtime \<Rightarrow> exn \<Rightarrow> jsstring" where
  "errorString rt TypeError = typeErrorText rt"
| "errorString rt SyntaxError = syntaxErrorText rt"

fun truthy :: "js \<Rightarrow> bool" where
  "truthy JUndefined = False"
| "truthy JNull = False"
| "truthy (JBool b) = b"
| "truthy (JNum x) = (x \<noteq> 0)"
| "truthy (JStr s) = (s \<noteq> [])"
| "truthy (JArr xs) = True"
| "truthy (JObj kvs) = True"
| "truthy (JFun p k) = True"
| "truthy (JProto p) = True"

text \<open>
  \<open>typeof v === 'object'\<close>, which holds of \<open>null\<close> and of arrays too, and of a prototype
  object; the \<open>typeof\<close> of a function is \<open>'function'\<close>.
\<close>
fun typeofObject :: "js \<Rightarrow> bool" where
  "typeofObject JNull = True"
| "typeofObject (JArr xs) = True"
| "typeofObject (JObj kvs) = True"
| "typeofObject (JProto p) = True"
| "typeofObject _ = False"

text \<open>\<open>a ?? b\<close>\<close>
definition nullish :: "js \<Rightarrow> bool" where
  "nullish v \<longleftrightarrow> v = JUndefined \<or> v = JNull"

definition coalesce :: "js \<Rightarrow> js \<Rightarrow> js" where
  "coalesce a b = (if nullish a then b else a)"

text \<open>\<open>a || b\<close>\<close>
definition orElse :: "js \<Rightarrow> js \<Rightarrow> js" where
  "orElse a b = (if truthy a then a else b)"

text \<open>The \<open>name\<close> of a built-in function.\<close>
definition functionName :: "proto \<Rightarrow> jsstring \<Rightarrow> jsstring" where
  "functionName p k =
     (if k = ascii ''constructor''
      then (case p of ObjectPrototype \<Rightarrow> ascii ''Object'' | ArrayPrototype \<Rightarrow> ascii ''Array'')
      else k)"

text \<open>
  \<open>v.k\<close> for one of the literal names \<open>k\<close> listed above and a value \<open>v\<close> that is not
  \<open>null\<close> or \<open>undefined\<close> (on those the read throws, which each call site below writes
  out). Of these names a function has \<open>name\<close> and nothing else, and a prototype object has
  none.
\<close>
fun getp :: "js \<Rightarrow> jsstring \<Rightarrow> js" where
  "getp (JObj kvs) k = (case map_of kvs k of Some v \<Rightarrow> v | None \<Rightarrow> JUndefined)"
| "getp (JFun p f) k = (if k = ascii ''name'' then JStr (functionName p f) else JUndefined)"
| "getp _ k = JUndefined"

text \<open>\<open>v.k = x\<close> on an object.\<close>
fun setp :: "js \<Rightarrow> jsstring \<Rightarrow> js \<Rightarrow> js" where
  "setp (JObj kvs) k x = JObj (AList.update k x kvs)"
| "setp v k x = v"

subsection \<open>Numbers as text\<close>

definition digitUnit :: "nat \<Rightarrow> 16 word" where
  "digitUnit d = of_nat (48 + d)"

fun decimal :: "nat \<Rightarrow> jsstring" where
  "decimal n = (if n < 10 then [digitUnit n] else decimal (n div 10) @ [digitUnit (n mod 10)])"

declare decimal.simps [simp del]

text \<open>
  \<open>Number::toString\<close>: an integer of magnitude below \<open>2^53\<close> prints as its decimal
  digits; every other number is left to the runtime.
\<close>
definition numberToString :: "runtime \<Rightarrow> rat \<Rightarrow> jsstring" where
  "numberToString rt x =
     (if of_int \<lfloor>x\<rfloor> = x \<and> \<bar>x\<bar> < 2 ^ 53
      then (if x < 0 then ascii ''-'' @ decimal (nat \<lfloor>- x\<rfloor>) else decimal (nat \<lfloor>x\<rfloor>))
      else numberText rt x)"

text \<open>
  \<open>Number.prototype.toFixed(f)\<close> on a finite number, after ECMA-262: the sign is split
  off, a magnitude of \<open>10^21\<close> or more prints as \<open>ToString\<close> does, and otherwise the
  integer \<open>n\<close> nearest to \<open>x * 10^f\<close> (the larger one on a tie) is printed with \<open>f\<close>
  digits after the point.
\<close>
definition toFixedDigits :: "nat \<Rightarrow> rat \<Rightarrow> jsstring" where
  "toFixedDigits f x =
     (let n = nat \<lfloor>x * 10 ^ f + 1 / 2\<rfloor>;
          m = decimal n
      in if f = 0 then m
         else let m' = (if length m \<le> f then replicate (f + 1 - length m) 0x0030 @ m else m);
                  k = length m'
              in take (k - f) m' @ ascii ''.'' @ drop (k - f) m')"

definition toFixed :: "runtime \<Rightarrow> nat \<Rightarrow> rat \<Rightarrow> jsstring" where
  "toFixed rt f x =
     (let s = (if x < 0 then ascii ''-'' else []);
          y = (if x < 0 then - x else x)
      in if 10 ^ 21 \<le> y then s @ numberToString rt y else s @ toFixedDigits f y)"

text \<open>\<open>toFixed\<close> on the result of a coercion, which may be \<open>NaN\<close> or infinite.\<close>
fun toFixedNum :: "runtime \<Rightarrow> nat \<Rightarrow> jsnum \<Rightarrow> jsstring" where
  "toFixedNum rt f (Fin x) = toFixed rt f x"
| "toFixedNum rt f NaN = ascii ''NaN''"
| "toFixedNum rt f PosInf = ascii ''Infinity''"
| "toFixedNum rt f NegInf = ascii ''-Infinity''"

text \<open>Division of a coerced number by a positive constant.\<close>
fun divNum :: "jsnum \<Rightarrow> rat \<Rightarrow> jsnum" where
  "divNum (Fin x) d = Fin (x / d)"
| "divNum n d = n"

subsection \<open>Conversions\<close>

text \<open>
  \<open>ToString\<close>, as template literals, \<open>String(v)\<close> and property keys apply it. An array
  joins its elements with commas, \<open>null\<close> and \<open>undefined\<close> elements printing as nothing.
  An object prints as \<open>[object Object]\<close> through the inherited \<open>toString\<close>; when it carries
  an own property \<open>toString\<close> (never callable in parsed JSON), no method yields a
  primitive and the conversion throws a TypeError. (No built-in object reaches a
  conversion in this program; a native function prints its name in the form shown, and
  \<open>Array.prototype\<close> is an empty array.)
\<close>
fun toStringJ :: "runtime \<Rightarrow> js \<Rightarrow> exn + jsstring" where
  "toStringJ rt JUndefined = Inr (ascii ''undefined'')"
| "toStringJ rt JNull = Inr (ascii ''null'')"
| "toStringJ rt (JBool b) = Inr (if b then ascii ''true'' else ascii ''false'')"
| "toStringJ rt (JNum x) = Inr (numberToString rt x)"
| "toStringJ rt (JStr s) = Inr s"
| "toStringJ rt (JArr xs) =
     (let parts = map (\<lambda>e. if nullish e then Inr [] else toStringJ rt e) xs
      in if list_ex isl parts then Inl TypeError
         else Inr (joinWith (ascii '','') (map projr parts)))"
| "toStringJ rt (JObj kvs) =
     (if map_of kvs (ascii ''toString'') \<noteq> None then Inl TypeError
      else Inr (ascii ''[object Object]''))"
| "toStringJ rt (JFun p k) = Inr (ascii ''function '' @ functionName p k @ ascii ''() { [native code] }'')"
| "toStringJ rt (JProto ObjectPrototype) = Inr (ascii ''[object Object]'')"
| "toStringJ rt (JProto ArrayPrototype) = Inr []"

text \<open>\<open>ToNumber\<close>, as the division operator applies it to an operand.\<close>
fun toNumber :: "runtime \<Rightarrow> js \<Rightarrow> exn + jsnum" where
  "toNumber rt JUndefined = Inr NaN"
| "toNumber rt JNull = Inr (Fin 0)"
| "toNumber rt (JBool b) = Inr (Fin (if b then 1 else 0))"
| "toNumber rt (JNum x) = Inr (Fin x)"
| "toNumber rt (JStr s) = Inr (stringToNumber rt s)"
| "toNumber rt v = (case toStringJ rt v of Inl e \<Rightarrow> Inl e | Inr s \<Rightarrow> Inr (stringToNumber rt s))"

text \<open>Sequencing of steps that may throw.\<close>
definition bindE :: "exn + 'a \<Rightarrow> ('a \<Rightarrow> exn + 'b) \<Rightarrow> exn + 'b" where
  "bindE m f = (case m of Inl e \<Rightarrow> Inl e | Inr v \<Rightarrow> f v)"

section \<open>Configuration and headers\<close>

text \<open>The two fields of \<open>PluginConfig\<close> this module reads; either may be missing.\<close>
record config =
  komariUrl :: "jsstring option"
  komariToken :: "jsstring option"

text \<open>
  \<open>buildHeaders\<close>: \<open>token = config.komariToken?.trim()\<close>, and both headers are set when
  \<open>token\<close> is truthy. The header object is the list of its entries in insertion order.
\<close>
definition buildHeaders :: "config \<Rightarrow> (jsstring \<times> jsstring) list" where
  "buildHeaders cfg =
     (case map_option trim (komariToken cfg) of
        None \<Rightarrow> []
      | Some token \<Rightarrow>
          if token \<noteq> []
          then [(ascii ''Authorization'', ascii ''Bearer '' @ token),
                (ascii ''Cookie'', ascii ''session_token='' @ token)]
          else [])"

text \<open>\<open>getBaseUrl\<close>: \<open>(config.komariUrl || '').replace(/\/+$/, '')\<close>\<close>
definition getBaseUrl :: "config \<Rightarrow> jsstring" where
  "getBaseUrl cfg =
     stripTrailingSlashes (case komariUrl cfg of None \<Rightarrow> [] | Some u \<Rightarrow> if u \<noteq> [] then u else [])"

section \<open>Realtime network formatters\<close>

text \<open>
  \<open>fmtSpeed\<close> and \<open>fmtTraffic\<close>, the two closures of \<open>getRealtimeStatus\<close>; both are
  applied to values that passed \<open>typeof v === 'number'\<close>.
\<close>
definition fmtSpeed :: "runtime \<Rightarrow> rat \<Rightarrow> jsstring" where
  "fmtSpeed rt b =
     (if b > 1024 * 1024 then toFixed rt 1 (b / 1024 / 1024) @ ascii '' MB/s''
      else toFixed rt 1 (b / 1024) @ ascii '' KB/s'')"

definition fmtTraffic :: "runtime \<Rightarrow> rat \<Rightarrow> jsstring" where
  "fmtTraffic rt b =
     (if b > 1024 ^ 3 then toFixed rt 2 (b / 1024 ^ 3) @ ascii '' GB''
      else toFixed rt 2 (b / 1024 ^ 2) @ ascii '' MB'')"

section \<open>The network\<close>

text \<open>
  What the outside world answers. \<open>fetch\<close> either rejects (\<open>FetchFails t\<close>, with \<open>t\<close> the
  text of the error) or resolves to a response with a status code and a body;
  \<open>resp.ok\<close> is a status from 200 to 299. The realtime socket delivers a first message,
  or fails, or stays silent until the timer fires.
\<close>

type_synonym headers = "(jsstring \<times> jsstring) list"

datatype http_reply = FetchFails jsstring | Reply nat jsstring

datatype ws_outcome = WsMessage jsstring | WsError jsstring | WsTimeout

record network =
  httpGet :: "jsstring \<Rightarrow> headers \<Rightarrow> http_reply"
  wsConnect :: "jsstring \<Rightarrow> headers \<Rightarrow> ws_outcome"

text \<open>Every call returns, next to its result, the network actions it issued, in order.\<close>
datatype net_event = HttpGet jsstring headers | WsOpen jsstring headers

definition respOk :: "nat \<Rightarrow> bool" where
  "respOk status \<longleftrightarrow> 200 \<le> status \<and> status \<le> 299"

section \<open>fetchApi\<close>

text \<open>The object \<open>{ data?, error?, raw? }\<close>; an absent \<open>data\<close> or \<open>raw\<close> reads \<open>undefined\<close>.\<close>
record fetched =
  f_data :: js
  f_error :: "jsstring option"
  f_raw :: js

definition fetchError :: "jsstring \<Rightarrow> fetched" where
  "fetchError t = \<lparr>f_data = JUndefined, f_error = Some t, f_raw = JUndefined\<rparr>"

text \<open>
  \<open>fetchApi(endpoint)\<close>. Inside the \<open>try\<close>: a rejected \<open>fetch\<close>, a body that is not JSON
  and the read of \<open>.data\<close> on a body that is \<open>null\<close> all end in \<open>{ error: String(e) }\<close>.
\<close>
definition fetchApi :: "runtime \<Rightarrow> network \<Rightarrow> config \<Rightarrow> jsstring \<Rightarrow> fetched \<times> net_event list" where
  "fetchApi rt net cfg endpoint =
     (let base = getBaseUrl cfg in
      if base = [] then (fetchError msgConfigMissing, [])
      else
        let url = base @ endpoint;
            hdrs = buildHeaders cfg
        in (case httpGet net url hdrs of
              FetchFails t \<Rightarrow> fetchError t
            | Reply status body \<Rightarrow>
                if \<not> respOk status then fetchError (msgHttpError @ decimal status)
                else (case jsonParse rt body of
                        None \<Rightarrow> fetchError (errorString rt SyntaxError)
                      | Some json \<Rightarrow>
                          if nullish json then fetchError (errorString rt TypeError)
                          else \<lparr>f_data = coalesce (getp json (ascii ''data'')) json,
                                f_error = None, f_raw = json\<rparr>),
            [HttpGet url hdrs]))"

text \<open>\<open>if (error)\<close> holds of an error text that is there and not empty.\<close>
definition errorOf :: "fetched \<Rightarrow> jsstring option" where
  "errorOf r = (case f_error r of None \<Rightarrow> None | Some t \<Rightarrow> if t \<noteq> [] then Some t else None)"

text \<open>\<open>v?.k\<close>\<close>
definition optGet :: "js \<Rightarrow> jsstring \<Rightarrow> js" where
  "optGet v k = (if nullish v then JUndefined else getp v k)"

section \<open>getVersionInfo and getPublicSettings\<close>

text \<open>
  Both return a bare string, the report or the error text. \<open>Inl e\<close> is the exception
  that leaves the call (the promise rejects).
\<close>
definition versionReport :: "runtime \<Rightarrow> js \<Rightarrow> exn + jsstring" where
  "versionReport rt data =
     bindE (toStringJ rt (coalesce (getp data (ascii ''version'')) (JStr (ascii ''-'')))) (\<lambda>v.
     bindE (toStringJ rt (coalesce (getp data (ascii ''hash'')) (JStr (ascii ''-'')))) (\<lambda>h.
     Inr (msgVersion @ v @ ascii '' ('' @ h @ ascii '')'')))"

definition getVersionInfo :: "runtime \<Rightarrow> network \<Rightarrow> config \<Rightarrow> (exn + jsstring) \<times> net_event list" where
  "getVersionInfo rt net cfg =
     (let (r, tr) = fetchApi rt net cfg (ascii ''/api/version'') in
      case errorOf r of
        Some e \<Rightarrow> (Inr e, tr)
      | None \<Rightarrow>
        let data = orElse (optGet (f_raw r) (ascii ''data'')) (JObj []) in
        (versionReport rt data, tr))"

definition settingsReport :: "runtime \<Rightarrow> js \<Rightarrow> exn + jsstring" where
  "settingsReport rt settings =
     bindE (toStringJ rt (coalesce (getp settings (ascii ''sitename'')) (JStr msgUnknown))) (\<lambda>sitename.
     bindE (toStringJ rt (coalesce (getp settings (ascii ''description'')) (JStr []))) (\<lambda>description.
     bindE (toStringJ rt (coalesce (getp settings (ascii ''theme'')) (JStr msgDefault))) (\<lambda>theme.
     Inr (joinWith (ascii ''\<newline>'')
            [msgSitename @ sitename, msgDescription @ description, msgTheme @ theme]))))"

definition getPublicSettings :: "runtime \<Rightarrow> network \<Rightarrow> config \<Rightarrow> (exn + jsstring) \<times> net_event list" where
  "getPublicSettings rt net cfg =
     (let (r, tr) = fetchApi rt net cfg (ascii ''/api/public'') in
      case errorOf r of
        Some e \<Rightarrow> (Inr e, tr)
      | None \<Rightarrow>
        let settings = orElse (optGet (f_raw r) (ascii ''data'')) (JObj []) in
        (settingsReport rt settings, tr))"

section \<open>getNodesStatus\<close>

datatype report = Text jsstring | Error jsstring

fun mapE :: "('a \<Rightarrow> exn + 'b) \<Rightarrow> 'a list \<Rightarrow> exn + 'b list" where
  "mapE f [] = Inr []"
| "mapE f (x # xs) = bindE (f x) (\<lambda>y. bindE (mapE f xs) (\<lambda>ys. Inr (y # ys)))"

definition tzOffsetMs :: int where
  "tzOffsetMs = 8 * 3600 * 1000"

definition intText :: "int \<Rightarrow> jsstring" where
  "intText i = (if i < 0 then ascii ''-'' @ decimal (nat (- i)) else decimal (nat i))"

text \<open>
  The template literal that builds \<open>updated_at_cn\<close> from \<open>new Date(t + tzOffsetMs)\<close>.
  Every getter of an invalid date is \<open>NaN\<close>, which prints as \<open>NaN\<close> and is not padded.
\<close>
definition formatCn :: "runtime \<Rightarrow> int \<Rightarrow> jsstring" where
  "formatCn rt ms =
     (case utcFields rt ms of
        None \<Rightarrow> ascii ''NaN-NaN-NaN NaN:NaN:NaN''
      | Some (y, mo, d, h, mi, s) \<Rightarrow>
          intText y @ ascii ''-'' @ padStart2 (intText (mo + 1)) @ ascii ''-'' @ padStart2 (intText d)
          @ ascii '' '' @ padStart2 (intText h) @ ascii '':'' @ padStart2 (intText mi)
          @ ascii '':'' @ padStart2 (intText s))"

text \<open>\<open>updated.endsWith('Z') ? updated.replace('Z', '+00:00') : updated\<close>\<close>
definition isoOf :: "jsstring \<Rightarrow> jsstring" where
  "isoOf updated =
     (if endsWith updated (ascii ''Z'') then replaceFirst (ascii ''Z'') (ascii ''+00:00'') updated
      else updated)"

text \<open>
  The body of the \<open>try\<close> in the callback of \<open>nodes.map\<close>, for a truthy \<open>updated\<close>: the
  freshness test and the localized timestamp. A truthy \<open>updated_at\<close> that is not a
  string has no \<open>endsWith\<close>; the TypeError is swallowed by the empty \<open>catch\<close>.
\<close>
definition freshness :: "runtime \<Rightarrow> int \<Rightarrow> js \<Rightarrow> js \<Rightarrow> bool \<times> js" where
  "freshness rt nowUtc node updated =
     (case updated of
        JStr u \<Rightarrow>
          (case dateParse rt (isoOf u) of
             None \<Rightarrow> (False, node)
           | Some t \<Rightarrow>
               ((of_int (nowUtc - t) :: rat) / 1000 < 600,
                setp node (ascii ''updated_at_cn'') (JStr (formatCn rt (t + tzOffsetMs)))))
      | _ \<Rightarrow> (False, node))"

text \<open>
  The callback of \<open>nodes.map\<close>. Reading \<open>updated_at\<close> of \<open>null\<close> throws. Module code is
  strict, so does the assignment of \<open>is_online\<close> to a number, a string or a boolean. An
  array element has no \<open>updated_at\<close>, and the \<open>is_online = false\<close> it receives reads
  below exactly as the missing property does, so it is returned as it is.
\<close>
definition processNode :: "runtime \<Rightarrow> int \<Rightarrow> js \<Rightarrow> exn + js" where
  "processNode rt nowUtc node =
     (if nullish node then Inl TypeError
      else
        let updated = getp node (ascii ''updated_at'');
            (isOnline, node') = (if truthy updated then freshness rt nowUtc node updated
                                 else (False, node))
        in (case node of
              JObj kvs \<Rightarrow> Inr (setp node' (ascii ''is_online'') (JBool isOnline))
            | JArr xs \<Rightarrow> Inr node'
            | _ \<Rightarrow> Inl TypeError))"

text \<open>\<open>nodes.length\<close>\<close>
fun lengthOf :: "js \<Rightarrow> js" where
  "lengthOf (JArr xs) = JNum (of_nat (length xs))"
| "lengthOf (JStr s) = JNum (of_nat (length s))"
| "lengthOf v = getp v (ascii ''length'')"

text \<open>
  \<open>n.updated_at_cn || (n.updated_at ? n.updated_at.replace('T', ' ').replace('Z', '') : '')\<close>;
  a truthy \<open>updated_at\<close> that is not a string has no \<open>replace\<close>.
\<close>
definition updatedValue :: "js \<Rightarrow> exn + js" where
  "updatedValue n =
     (let cn = getp n (ascii ''updated_at_cn'') in
      if truthy cn then Inr cn
      else
        let u = getp n (ascii ''updated_at'') in
        if truthy u
        then (case u of
                JStr s \<Rightarrow> Inr (JStr (replaceFirst (ascii ''Z'') [] (replaceFirst (ascii ''T'') (ascii '' '') s)))
              | _ \<Rightarrow> Inl TypeError)
        else Inr (JStr []))"

text \<open>\<open>if (updated) lines.push(...)\<close>: the update line, or none.\<close>
definition updatedLine :: "runtime \<Rightarrow> js \<Rightarrow> exn + jsstring list" where
  "updatedLine rt n =
     bindE (updatedValue n) (\<lambda>updated.
       if truthy updated then bindE (toStringJ rt updated) (\<lambda>u. Inr [lblUpdated @ u])
       else Inr [])"

text \<open>\<open>n.is_online ? green : red\<close>\<close>
definition statusIconOf :: "js \<Rightarrow> jsstring" where
  "statusIconOf n = (if truthy (getp n (ascii ''is_online'')) then iconOnline else iconOffline)"

text \<open>The lines one node adds to the report (the body of the \<open>for\<close> loop).\<close>
definition renderNode :: "runtime \<Rightarrow> js \<Rightarrow> exn + jsstring list" where
  "renderNode rt n =
     (let name = coalesce (getp n (ascii ''name'')) (JStr msgUnknown);
          os = coalesce (getp n (ascii ''os'')) (JStr msgUnknown);
          cpuName = coalesce (getp n (ascii ''cpu_name'')) (JStr msgUnknown);
          cores = coalesce (getp n (ascii ''cpu_cores'')) (JNum 0);
          region = coalesce (getp n (ascii ''region'')) (JStr [])
      in
      bindE (toNumber rt (coalesce (getp n (ascii ''mem_total'')) (JNum 0))) (\<lambda>mem.
      bindE (toNumber rt (coalesce (getp n (ascii ''disk_total'')) (JNum 0))) (\<lambda>disk.
      let memGb = divNum (divNum (divNum mem 1024) 1024) 1024;
          diskGb = divNum (divNum (divNum disk 1024) 1024) 1024;
          statusIcon = statusIconOf n
      in
      bindE (toStringJ rt region) (\<lambda>regionS.
      bindE (toStringJ rt name) (\<lambda>nameS.
      bindE (toStringJ rt os) (\<lambda>osS.
      bindE (toStringJ rt cpuName) (\<lambda>cpuNameS.
      bindE (toStringJ rt cores) (\<lambda>coresS.
      bindE (updatedLine rt n) (\<lambda>updLine.
      Inr ([[],
            pin @ statusIcon @ ascii '' '' @ regionS @ ascii '' '' @ nameS,
            lblSystem @ osS,
            ascii ''   CPU: '' @ cpuNameS @ ascii '' ('' @ coresS @ ascii '' C)'',
            lblMemory @ toFixedNum rt 2 memGb @ ascii '' GB'',
            lblDisk @ toFixedNum rt 2 diskGb @ ascii '' GB'']
           @ updLine))))))))))"

text \<open>
  \<open>getNodesStatus\<close>, with \<open>Date.now()\<close> as \<open>nowUtc\<close>. After the empty-list test,
  \<open>nodes.map\<close> exists on arrays only.
\<close>
definition getNodesStatus ::
  "runtime \<Rightarrow> network \<Rightarrow> config \<Rightarrow> int \<Rightarrow> (exn + report) \<times> net_event list" where
  "getNodesStatus rt net cfg nowUtc =
     (let (r, tr) = fetchApi rt net cfg (ascii ''/api/nodes'') in
      case errorOf r of
        Some e \<Rightarrow> (Inr (Error e), tr)
      | None \<Rightarrow>
        let raw = f_raw r in
        if \<not> truthy raw \<or> getp raw (ascii ''status'') \<noteq> JStr (ascii ''success'')
        then (bindE (toStringJ rt (coalesce (optGet raw (ascii ''message'')) (JStr msgUnknownError)))
                (\<lambda>m. Inr (Error (msgApiFailed @ m))), tr)
        else
          let nodes = orElse (getp raw (ascii ''data'')) (JArr []) in
          if \<not> truthy (lengthOf nodes) then (Inr (Error msgNoNodes), tr)
          else
            (case nodes of
               JArr xs \<Rightarrow>
                 bindE (mapE (processNode rt nowUtc) xs) (\<lambda>processed.
                 bindE (mapE (renderNode rt) processed) (\<lambda>blocks.
                 Inr (Text (joinWith (ascii ''\<newline>'') (msgNodesHeader # concat blocks)))))
             | _ \<Rightarrow> Inl TypeError, tr))"

subsection \<open>The declared type of a node\<close>

text \<open>
  The interface \<open>KomariNode\<close> declares the fields of a node, all of them optional. Of the
  fields this module reads, \<open>id\<close>, \<open>uuid\<close>, \<open>name\<close>, \<open>region\<close>, \<open>os\<close>, \<open>cpu_name\<close>,
  \<open>updated_at\<close> and \<open>updated_at_cn\<close> are declared strings and \<open>cpu_cores\<close>, \<open>mem_total\<close>
  and \<open>disk_total\<close> numbers. \<open>komariNode n\<close> holds of an object in which each of these
  fields is absent, \<open>null\<close> or of its declared type. The type is erased at run time and
  nothing checks it: the functions above are defined on every value, and this predicate
  only delimits the nodes for which a report can be written out line by line.
\<close>
definition stringFields :: "jsstring list" where
  "stringFields = [ascii ''id'', ascii ''uuid'', ascii ''name'', ascii ''region'', ascii ''os'',
     ascii ''cpu_name'', ascii ''updated_at'', ascii ''updated_at_cn'']"

definition numberFields :: "jsstring list" where
  "numberFields = [ascii ''cpu_cores'', ascii ''mem_total'', ascii ''disk_total'']"

definition isString :: "js \<Rightarrow> bool" where
  "isString v = (case v of JStr s \<Rightarrow> True | _ \<Rightarrow> False)"

definition isNumber :: "js \<Rightarrow> bool" where
  "isNumber v = (case v of JNum x \<Rightarrow> True | _ \<Rightarrow> False)"

definition komariNode :: "js \<Rightarrow> bool" where
  "komariNode n \<longleftrightarrow>
     (case n of JObj kvs \<Rightarrow> True | _ \<Rightarrow> False)
     \<and> list_all (\<lambda>k. nullish (getp n k) \<or> isString (getp n k)) stringFields
     \<and> list_all (\<lambda>k. nullish (getp n k) \<or> isNumber (getp n k)) numberFields"

section \<open>getRealtimeStatus\<close>

text \<open>
  The repository holds two versions of the service module. \<open>buildHeaders\<close>,
  \<open>getBaseUrl\<close>, \<open>fetchApi\<close>, \<open>getVersionInfo\<close>, \<open>getPublicSettings\<close> and
  \<open>getNodesStatus\<close> are word for word the same in both. \<open>getRealtimeStatus\<close> is modelled
  from the later one, which fetches the static nodes and merges them in.

  That version names the constant holding the static record \<open>static\<close>. The word is
  reserved in strict mode code, and the code of a module is strict, so an engine that
  reads the file as it stands rejects it with a SyntaxError and no function of that
  file runs at all. This section describes the function that the text of the source
  spells out, with that one constant under a name that is allowed; every statement
  below about \<open>getRealtimeStatus\<close> beyond its first guard is a statement about that
  function.
\<close>

subsection \<open>Reads by a computed key\<close>

text \<open>
  \<open>o[k]\<close> looks for the property \<open>k\<close> on \<open>o\<close> and then along its prototype chain.
  \<open>Object.prototype\<close> holds eleven functions and the accessor \<open>__proto__\<close>, whose getter
  returns the prototype of the object the read started from (\<open>start\<close> below).
\<close>
definition objectMethods :: "jsstring list" where
  "objectMethods = [ascii ''constructor'', ascii ''__defineGetter__'', ascii ''__defineSetter__'',
     ascii ''hasOwnProperty'', ascii ''__lookupGetter__'', ascii ''__lookupSetter__'',
     ascii ''isPrototypeOf'', ascii ''propertyIsEnumerable'', ascii ''toString'',
     ascii ''valueOf'', ascii ''toLocaleString'']"

definition objectProtoGet :: "js \<Rightarrow> jsstring \<Rightarrow> js" where
  "objectProtoGet start k =
     (if k = ascii ''__proto__'' then start
      else if k \<in> set objectMethods then JFun ObjectPrototype k
      else JUndefined)"

text \<open>
  \<open>Array.prototype\<close> is an empty array with its own \<open>constructor\<close> and methods, and
  \<open>Object.prototype\<close> behind it.
\<close>
definition arrayProtoGet :: "runtime \<Rightarrow> js \<Rightarrow> jsstring \<Rightarrow> js" where
  "arrayProtoGet rt start k =
     (if k = ascii ''length'' then JNum 0
      else if k = ascii ''constructor'' \<or> k \<in> set (arrayMethods rt) then JFun ArrayPrototype k
      else objectProtoGet start k)"

text \<open>
  \<open>details[uuid]\<close>, where \<open>details\<close> is \<open>payload.data\<close> when that is an object or an
  array, and \<open>{}\<close> otherwise. An array has its elements under their canonical indices
  and its length.
\<close>
fun getComputed :: "runtime \<Rightarrow> js \<Rightarrow> jsstring \<Rightarrow> js" where
  "getComputed rt (JObj kvs) k =
     (case map_of kvs k of Some v \<Rightarrow> v | None \<Rightarrow> objectProtoGet (JProto ObjectPrototype) k)"
| "getComputed rt (JArr xs) k =
     (if k = ascii ''length'' then JNum (of_nat (length xs))
      else (case filter (\<lambda>i. decimal i = k) [0..<length xs] of
              [] \<Rightarrow> arrayProtoGet rt (JProto ArrayPrototype) k
            | i # _ \<Rightarrow> xs ! i))"
| "getComputed rt (JProto ObjectPrototype) k = objectProtoGet JNull k"
| "getComputed rt (JProto ArrayPrototype) k = arrayProtoGet rt (JProto ObjectPrototype) k"
| "getComputed rt _ k = JUndefined"

subsection \<open>Static node information\<close>

text \<open>
  \<open>staticNodes\<close> starts as \<open>{}\<close>: no property of its own, prototype \<open>Object.prototype\<close>.
  \<open>stored\<close> holds its own properties. \<open>protoNode\<close> is \<open>None\<close> as long as the prototype is
  \<open>Object.prototype\<close>; it is \<open>Some\<close> of a node's properties once that node has become the
  prototype, which is what the assignment \<open>staticNodes['__proto__'] = n\<close> does.
\<close>
record statics =
  stored :: "jsstring \<rightharpoonup> js"
  protoNode :: "(jsstring \<times> js) list option"

definition emptyStatics :: statics where
  "emptyStatics = \<lparr>stored = Map.empty, protoNode = None\<rparr>"

text \<open>
  \<open>staticNodes[key] = n\<close>. An own property is overwritten. Otherwise the chain is
  searched: a data property found there (all of them are writable), or nothing found,
  makes the assignment create an own property; the accessor \<open>__proto__\<close> of
  \<open>Object.prototype\<close>, reached when no object before it has a property of that name,
  runs its setter, which makes an object \<open>n\<close> the prototype of \<open>staticNodes\<close>. (The value
  assigned is always a node with a truthy \<open>id\<close> or \<open>uuid\<close>, so an object.)
\<close>
definition staticSet :: "statics \<Rightarrow> jsstring \<Rightarrow> js \<Rightarrow> statics" where
  "staticSet S key n =
     (if stored S key = None \<and> key = ascii ''__proto__''
         \<and> (case protoNode S of None \<Rightarrow> True | Some kvs \<Rightarrow> map_of kvs key = None)
      then (case n of JObj kvs \<Rightarrow> S\<lparr>protoNode := Some kvs\<rparr> | _ \<Rightarrow> S)
      else S\<lparr>stored := (stored S)(key \<mapsto> n)\<rparr>)"

text \<open>\<open>staticNodes[key]\<close>: own property, then the node that is the prototype, then \<open>Object.prototype\<close>.\<close>
definition staticGet :: "statics \<Rightarrow> jsstring \<Rightarrow> js" where
  "staticGet S key =
     (case stored S key of
        Some v \<Rightarrow> v
      | None \<Rightarrow>
          (case protoNode S of
             None \<Rightarrow> objectProtoGet (JProto ObjectPrototype) key
           | Some kvs \<Rightarrow>
               (case map_of kvs key of
                  Some v \<Rightarrow> v
                | None \<Rightarrow> objectProtoGet (JObj kvs) key)))"

text \<open>
  \<open>if (k) staticNodes[k] = n\<close>, for \<open>k\<close> the \<open>id\<close> and then the \<open>uuid\<close> of \<open>n\<close>. A key is
  converted with \<open>ToString\<close>, as a property key is. The whole loop runs inside a \<open>try\<close>
  with an empty \<open>catch\<close>: a \<open>null\<close> element or a key that cannot be converted stops it,
  and what was assigned so far remains.
\<close>
definition addStatic :: "runtime \<Rightarrow> js \<Rightarrow> js \<Rightarrow> statics \<Rightarrow> exn + statics" where
  "addStatic rt k n S =
     (if truthy k then bindE (toStringJ rt k) (\<lambda>key. Inr (staticSet S key n)) else Inr S)"

fun buildStatic :: "runtime \<Rightarrow> js list \<Rightarrow> statics \<Rightarrow> statics" where
  "buildStatic rt [] S = S"
| "buildStatic rt (n # ns) S =
     (if nullish n then S
      else (case addStatic rt (getp n (ascii ''id'')) n S of
              Inl e \<Rightarrow> S
            | Inr S1 \<Rightarrow>
                (case addStatic rt (getp n (ascii ''uuid'')) n S1 of
                   Inl e \<Rightarrow> S1
                 | Inr S2 \<Rightarrow> buildStatic rt ns S2)))"

text \<open>
  \<open>for (const n of nodesRaw.data)\<close> when \<open>nodesRaw?.data\<close> is truthy. Only an array
  yields elements with properties; a string yields its characters, which have neither
  \<open>id\<close> nor \<open>uuid\<close>, and any other value is not iterable (the TypeError is swallowed).
\<close>
definition staticNodesOf :: "runtime \<Rightarrow> js \<Rightarrow> statics" where
  "staticNodesOf rt nodesRaw =
     (let d = optGet nodesRaw (ascii ''data'') in
      if truthy d then (case d of JArr xs \<Rightarrow> buildStatic rt xs emptyStatics | _ \<Rightarrow> emptyStatics)
      else emptyStatics)"

subsection \<open>Candidate nodes\<close>

text \<open>\<open>nodes.push(details[uuid] || { uuid })\<close>\<close>
definition resolveOnline :: "runtime \<Rightarrow> js \<Rightarrow> js \<Rightarrow> exn + js" where
  "resolveOnline rt details uuid =
     bindE (toStringJ rt uuid) (\<lambda>key.
       Inr (orElse (getComputed rt details key) (JObj [(ascii ''uuid'', uuid)])))"

text \<open>The candidate list \<open>nodes\<close> built from \<open>payload\<close>.\<close>
definition candidates :: "runtime \<Rightarrow> js \<Rightarrow> exn + js list" where
  "candidates rt payload =
     (case payload of
        JArr xs \<Rightarrow> Inr (take 10 xs)
      | _ \<Rightarrow>
          if truthy payload \<and> typeofObject payload
          then
            let online = (case getp payload (ascii ''online'') of JArr os \<Rightarrow> os | _ \<Rightarrow> []);
                d = getp payload (ascii ''data'');
                details = (if truthy d \<and> typeofObject d then d else JObj [])
            in mapE (resolveOnline rt details) (take 10 online)
          else Inr [])"

subsection \<open>Backfill from the static record\<close>

definition staticKeys :: "jsstring list" where
  "staticKeys = [ascii ''name'', ascii ''region'', ascii ''os'', ascii ''cpu_name'',
     ascii ''cpu_cores'', ascii ''mem_total'', ascii ''disk_total'']"

text \<open>\<open>if (!node[k] && static[k]) node[k] = static[k]\<close>\<close>
definition backfill :: "js \<Rightarrow> js \<Rightarrow> jsstring \<Rightarrow> js" where
  "backfill static node k =
     (if \<not> truthy (getp node k) \<and> truthy (getp static k) then setp node k (getp static k)
      else node)"

text \<open>\<open>lookup = node.uuid || node.id\<close>\<close>
definition lookupOf :: "js \<Rightarrow> js" where
  "lookupOf node = orElse (getp node (ascii ''uuid'')) (getp node (ascii ''id''))"

text \<open>
  \<open>if (lookup && staticNodes[lookup]) { ... }\<close>: one read of \<open>staticNodes\<close> under the key
  \<open>lookup\<close>, and the copying loop when what it finds is truthy.
\<close>
definition mergeStatic :: "runtime \<Rightarrow> statics \<Rightarrow> js \<Rightarrow> exn + js" where
  "mergeStatic rt S node =
     (let lookup = lookupOf node in
      if truthy lookup
      then bindE (toStringJ rt lookup) (\<lambda>key.
             let static = staticGet S key in
             if truthy static then Inr (foldl (backfill static) node staticKeys) else Inr node)
      else Inr node)"

subsection \<open>Derived realtime fields\<close>

text \<open>
  Each step assigns only under its own guard. (\<open>ram_usage_percent\<close> and
  \<open>disk_usage_percent\<close> are stored and never shown.)
\<close>
text \<open>The fields that these steps assign.\<close>
definition derivedKeys :: "jsstring list" where
  "derivedKeys = [ascii ''cpu_usage_percent'', ascii ''ram_total_gb'', ascii ''ram_used_gb'',
     ascii ''ram_usage_percent'', ascii ''disk_total_gb'', ascii ''disk_used_gb'',
     ascii ''disk_usage_percent'', ascii ''net_up_str'', ascii ''net_down_str'',
     ascii ''traffic_up_str'', ascii ''traffic_down_str'', ascii ''uptime_str'',
     ascii ''load_1'', ascii ''load_5'', ascii ''load_15'']"

definition deriveCpu :: "js \<Rightarrow> js" where
  "deriveCpu node =
     (let cpu = getp node (ascii ''cpu'') in
      if truthy cpu \<and> typeofObject cpu
      then (case getp cpu (ascii ''usage'') of
              JNum usage \<Rightarrow> setp node (ascii ''cpu_usage_percent'') (JNum usage)
            | _ \<Rightarrow> node)
      else node)"

definition deriveRam :: "js \<Rightarrow> js" where
  "deriveRam node =
     (let ram = getp node (ascii ''ram'') in
      if truthy ram \<and> typeofObject ram
      then (case (getp ram (ascii ''used''), getp ram (ascii ''total'')) of
              (JNum used, JNum totalB) \<Rightarrow>
                if totalB > 0
                then setp (setp (setp node (ascii ''ram_total_gb'') (JNum (totalB / 1024 ^ 3)))
                       (ascii ''ram_used_gb'') (JNum (used / 1024 ^ 3)))
                       (ascii ''ram_usage_percent'') (JNum (used / totalB * 100))
                else node
            | _ \<Rightarrow> node)
      else (case getp node (ascii ''mem_total'') of
              JNum m \<Rightarrow> setp node (ascii ''ram_total_gb'') (JNum (m / 1024 ^ 3))
            | _ \<Rightarrow> node))"

definition deriveDisk :: "js \<Rightarrow> js" where
  "deriveDisk node =
     (let disk = getp node (ascii ''disk'') in
      if truthy disk \<and> typeofObject disk
      then (case (getp disk (ascii ''used''), getp disk (ascii ''total'')) of
              (JNum used, JNum totalB) \<Rightarrow>
                if totalB > 0
                then setp (setp (setp node (ascii ''disk_total_gb'') (JNum (totalB / 1024 ^ 3)))
                       (ascii ''disk_used_gb'') (JNum (used / 1024 ^ 3)))
                       (ascii ''disk_usage_percent'') (JNum (used / totalB * 100))
                else node
            | _ \<Rightarrow> node)
      else (case getp node (ascii ''disk_total'') of
              JNum m \<Rightarrow> setp node (ascii ''disk_total_gb'') (JNum (m / 1024 ^ 3))
            | _ \<Rightarrow> node))"

text \<open>\<open>if (typeof v === 'number') node.k = fmt(v)\<close>\<close>
definition setFormatted :: "(rat \<Rightarrow> jsstring) \<Rightarrow> js \<Rightarrow> jsstring \<Rightarrow> js \<Rightarrow> js" where
  "setFormatted fmt v k node = (case v of JNum b \<Rightarrow> setp node k (JStr (fmt b)) | _ \<Rightarrow> node)"

definition deriveNetwork :: "runtime \<Rightarrow> js \<Rightarrow> js" where
  "deriveNetwork rt node =
     (let network = getp node (ascii ''network'') in
      if truthy network \<and> typeofObject network
      then
        let up = getp network (ascii ''up'');
            down = getp network (ascii ''down'');
            totalUp = getp network (ascii ''totalUp'');
            totalDown = getp network (ascii ''totalDown'')
        in setFormatted (fmtTraffic rt) totalDown (ascii ''traffic_down_str'')
            (setFormatted (fmtTraffic rt) totalUp (ascii ''traffic_up_str'')
              (setFormatted (fmtSpeed rt) down (ascii ''net_down_str'')
                (setFormatted (fmtSpeed rt) up (ascii ''net_up_str'') node)))
      else node)"

text \<open>The remainder \<open>x % m\<close> takes the sign of \<open>x\<close>: the quotient is truncated.\<close>
definition jsRem :: "rat \<Rightarrow> rat \<Rightarrow> rat" where
  "jsRem x m = x - m * of_int (if 0 \<le> x / m then \<lfloor>x / m\<rfloor> else \<lceil>x / m\<rceil>)"

definition deriveUptime :: "runtime \<Rightarrow> js \<Rightarrow> js" where
  "deriveUptime rt node =
     (case getp node (ascii ''uptime'') of
        JNum sec \<Rightarrow>
          let d = \<lfloor>sec / 86400\<rfloor>;
              h = \<lfloor>jsRem sec 86400 / 3600\<rfloor>
          in setp node (ascii ''uptime_str'')
               (JStr (numberToString rt (of_int d) @ lblDays @ numberToString rt (of_int h) @ lblHours))
      | _ \<Rightarrow> node)"

definition deriveLoad :: "js \<Rightarrow> js" where
  "deriveLoad node =
     (let load = getp node (ascii ''load'') in
      if truthy load \<and> typeofObject load
      then setp (setp (setp node (ascii ''load_1'') (getp load (ascii ''load1'')))
             (ascii ''load_5'') (getp load (ascii ''load5'')))
             (ascii ''load_15'') (getp load (ascii ''load15''))
      else node)"

definition normalize :: "runtime \<Rightarrow> js \<Rightarrow> js" where
  "normalize rt node =
     deriveLoad (deriveUptime rt (deriveNetwork rt (deriveDisk (deriveRam (deriveCpu node)))))"

subsection \<open>Text output\<close>

text \<open>\<open>v.toFixed(2)\<close> on a value that is not \<open>null\<close> or \<open>undefined\<close>: only numbers have the method.\<close>
definition callToFixed2 :: "runtime \<Rightarrow> js \<Rightarrow> exn + jsstring" where
  "callToFixed2 rt v = (case v of JNum x \<Rightarrow> Inr (toFixed rt 2 x) | _ \<Rightarrow> Inl TypeError)"

text \<open>\<open>if (typeof v === 'number') lines.push(label + v.toFixed(2) + unit)\<close>\<close>
definition fixedLine :: "runtime \<Rightarrow> jsstring \<Rightarrow> js \<Rightarrow> jsstring \<Rightarrow> jsstring list" where
  "fixedLine rt label v unit =
     (case v of JNum x \<Rightarrow> [label @ toFixed rt 2 x @ unit] | _ \<Rightarrow> [])"

definition renderRealtime :: "runtime \<Rightarrow> js \<Rightarrow> exn + jsstring list" where
  "renderRealtime rt node =
     bindE (toStringJ rt (coalesce (getp node (ascii ''region'')) (JStr []))) (\<lambda>regionS.
     bindE (toStringJ rt (coalesce (getp node (ascii ''name'')) (JStr msgUnknownNode))) (\<lambda>nameS.
     bindE (toStringJ rt (coalesce (getp node (ascii ''os'')) (JStr (ascii ''-'')))) (\<lambda>osS.
     let up = getp node (ascii ''net_up_str'');
         down = getp node (ascii ''net_down_str'');
         uptime = getp node (ascii ''uptime_str'');
         load1 = getp node (ascii ''load_1'')
     in
     bindE (if truthy up \<or> truthy down
            then bindE (toStringJ rt (coalesce up (JStr (ascii ''-'')))) (\<lambda>upS.
                 bindE (toStringJ rt (coalesce down (JStr (ascii ''-'')))) (\<lambda>downS.
                 Inr [lblNetwork @ upS @ lblDown @ downS]))
            else Inr []) (\<lambda>netLine.
     bindE (if truthy uptime then bindE (toStringJ rt uptime) (\<lambda>u. Inr [lblUptime @ u])
            else Inr []) (\<lambda>uptimeLine.
     bindE (case load1 of
              JNum l1 \<Rightarrow>
                bindE (callToFixed2 rt (coalesce (getp node (ascii ''load_5'')) (JNum 0))) (\<lambda>l5.
                bindE (callToFixed2 rt (coalesce (getp node (ascii ''load_15'')) (JNum 0))) (\<lambda>l15.
                Inr [lblLoad @ toFixed rt 2 l1 @ ascii '' / '' @ l5 @ ascii '' / '' @ l15]))
            | _ \<Rightarrow> Inr []) (\<lambda>loadLine.
     Inr ([[],
           pin @ regionS @ ascii '' '' @ nameS,
           ascii ''   OS: '' @ osS]
          @ fixedLine rt (ascii ''   CPU: '') (getp node (ascii ''cpu_usage_percent'')) (ascii ''%'')
          @ fixedLine rt lblMemory (getp node (ascii ''ram_total_gb'')) (ascii '' GB'')
          @ fixedLine rt lblDisk (getp node (ascii ''disk_total_gb'')) (ascii '' GB'')
          @ netLine @ uptimeLine @ loadLine)))))))"

text \<open>
  \<open>if (typeof node === 'string') { try { node = JSON.parse(node) } catch {} }\<close>: a string
  that does not parse stays the string it is.
\<close>
definition parseElement :: "runtime \<Rightarrow> js \<Rightarrow> js" where
  "parseElement rt node =
     (case node of
        JStr s \<Rightarrow> (case jsonParse rt s of Some v \<Rightarrow> v | None \<Rightarrow> node)
      | _ \<Rightarrow> node)"

text \<open>
  One turn of the loop over \<open>nodes\<close>: the lines it pushes, none after \<open>continue\<close>. The
  loop changes only the element at hand, and a second visit of the same object finds
  every field as the first one left it, so the turns are independent.
\<close>
definition nodeLines :: "runtime \<Rightarrow> statics \<Rightarrow> js \<Rightarrow> exn + jsstring list" where
  "nodeLines rt S element =
     (let node = parseElement rt element in
      if \<not> truthy node \<or> \<not> typeofObject node then Inr []
      else bindE (mergeStatic rt S node) (\<lambda>merged. renderRealtime rt (normalize rt merged)))"

text \<open>Everything after the first message: payload, candidates, loop and join.\<close>
definition realtimeReport :: "runtime \<Rightarrow> statics \<Rightarrow> js \<Rightarrow> exn + jsstring" where
  "realtimeReport rt S data =
     (let payload = coalesce (optGet data (ascii ''data'')) data in
      bindE (candidates rt payload) (\<lambda>nodes.
      bindE (mapE (nodeLines rt S) nodes) (\<lambda>blocks.
      let lines = msgRealtimeHeader # concat blocks in
      Inr (joinWith (ascii ''\<newline>'')
             (if length lines = 1 then lines @ [msgNoData] else lines)))))"

text \<open>
  \<open>getRealtimeStatus\<close>. The static list is fetched first and its failure ignored. The
  socket's first message is parsed (\<open>{}\<close> when it is not JSON); an error event and the
  timer reject, and the outer \<open>catch\<close> turns every exception into an error text.
\<close>
definition getRealtimeStatus ::
  "runtime \<Rightarrow> network \<Rightarrow> config \<Rightarrow> (exn + report) \<times> net_event list" where
  "getRealtimeStatus rt net cfg =
     (let base = getBaseUrl cfg in
      if base = [] then (Inr (Error msgConfigMissing), [])
      else
        let wsUrl = replaceFirst (ascii ''http://'') (ascii ''ws://'')
                      (replaceFirst (ascii ''https://'') (ascii ''wss://'') base)
                    @ ascii ''/api/clients'';
            (r, tr) = fetchApi rt net cfg (ascii ''/api/nodes'');
            staticNodes = staticNodesOf rt (f_raw r);
            hdrs = buildHeaders cfg
        in ((case wsConnect net wsUrl hdrs of
               WsError t \<Rightarrow> Inr (Error (msgConnectFailed @ t))
             | WsTimeout \<Rightarrow> Inr (Error (msgConnectFailed @ ascii ''Error: '' @ msgTimeout))
             | WsMessage msg \<Rightarrow>
                 let data = (case jsonParse rt msg of Some d \<Rightarrow> d | None \<Rightarrow> JObj []) in
                 (case realtimeReport rt staticNodes data of
                    Inl e \<Rightarrow> Inr (Error (msgConnectFailed @ errorString rt e))
                  | Inr t \<Rightarrow> Inr (Text t))),
            tr @ [WsOpen wsUrl hdrs]))"

section \<open>Concrete inputs\<close>

text \<open>
  A runtime and some servers for the closed examples below. \<open>exParse\<close> lists the JSON
  texts the examples use, each with the value \<open>JSON.parse\<close> gives it; every other text
  is not JSON. The instant \<open>2024-01-01T00:00:00Z\<close> is 1704067200000 ms.
\<close>

definition exParse :: "jsstring \<Rightarrow> js option" where
  \<open>exParse = map_of
     [(ascii ''null'', JNull),
      (ascii ''{"status":"success","data":[]}'',
         JObj [(ascii ''status'', JStr (ascii ''success'')), (ascii ''data'', JArr [])]),
      (ascii ''{"status":"failed","data":{"version":"1.0.0"}}'',
         JObj [(ascii ''status'', JStr (ascii ''failed'')),
               (ascii ''data'', JObj [(ascii ''version'', JStr (ascii ''1.0.0''))])]),
      (ascii ''{"data":{"sitename":"Lab"}}'',
         JObj [(ascii ''data'', JObj [(ascii ''sitename'', JStr (ascii ''Lab''))])]),
      (ascii ''{"status":"failed","message":"denied"}'',
         JObj [(ascii ''status'', JStr (ascii ''failed'')), (ascii ''message'', JStr (ascii ''denied''))]),
      (ascii ''{}'', JObj []),
      (ascii ''[{"name":"n1"},"{oops","{}"]'',
         JArr [JObj [(ascii ''name'', JStr (ascii ''n1''))], JStr (ascii ''{oops''),
               JStr (ascii ''{}'')])]\<close>

definition exRuntime :: runtime where
  "exRuntime = \<lparr>
     numberText = (\<lambda>x. ascii ''?''),
     stringToNumber = (\<lambda>s. NaN),
     dateParse = (\<lambda>s. if s = ascii ''2024-01-01T00:00:00+00:00'' then Some 1704067200000 else None),
     utcFields = (\<lambda>ms. if ms = 1704096000000 then Some (2024, 0, 1, 8, 0, 0) else None),
     jsonParse = exParse,
     typeErrorText = ascii ''TypeError: not an object'',
     syntaxErrorText = ascii ''SyntaxError: not JSON'',
     arrayMethods = map ascii
       [''at'', ''concat'', ''copyWithin'', ''entries'', ''every'', ''fill'', ''filter'', ''find'',
        ''findIndex'', ''findLast'', ''findLastIndex'', ''flat'', ''flatMap'', ''forEach'',
        ''includes'', ''indexOf'', ''join'', ''keys'', ''lastIndexOf'', ''map'', ''pop'', ''push'',
        ''reduce'', ''reduceRight'', ''reverse'', ''shift'', ''slice'', ''some'', ''sort'',
        ''splice'', ''toLocaleString'', ''toReversed'', ''toSorted'', ''toSpliced'', ''toString'',
        ''unshift'', ''values'', ''with''] \<rparr>"

definition exConfig :: config where
  "exConfig = \<lparr>komariUrl = Some (ascii ''https://k.example/''), komariToken = None\<rparr>"

definition exConfigNoUrl :: config where
  "exConfigNoUrl = \<lparr>komariUrl = Some (ascii ''//''), komariToken = Some (ascii ''secret'')\<rparr>"

text \<open>A server whose envelopes report failure, and whose socket sends three elements.\<close>
definition exNet :: network where
  \<open>exNet = \<lparr>
     httpGet = (\<lambda>url hdrs.
       if url = ascii ''https://k.example/api/version''
       then Reply 200 (ascii ''{"status":"failed","data":{"version":"1.0.0"}}'')
       else if url = ascii ''https://k.example/api/public''
       then Reply 200 (ascii ''{"data":{"sitename":"Lab"}}'')
       else if url = ascii ''https://k.example/api/nodes''
       then Reply 200 (ascii ''{"status":"failed","message":"denied"}'')
       else Reply 404 []),
     wsConnect = (\<lambda>url hdrs.
       if url = ascii ''wss://k.example/api/clients''
       then WsMessage (ascii ''[{"name":"n1"},"{oops","{}"]'')
       else WsTimeout) \<rparr>\<close>

text \<open>A server with no nodes.\<close>
definition exNetEmpty :: network where
  \<open>exNetEmpty = \<lparr>
     httpGet = (\<lambda>url hdrs. Reply 200 (ascii ''{"status":"success","data":[]}'')),
     wsConnect = (\<lambda>url hdrs. WsTimeout) \<rparr>\<close>


subsection \<open>A server with nodes\<close>

text \<open>
  The bodies and socket messages of the examples that follow, each with the value
  \<open>JSON.parse\<close> gives it. 12.5 and the byte counts are doubles exactly.
\<close>

definition exListBody :: jsstring where
  \<open>exListBody = ascii ''{"status":"success","data":[{"name":"alpha","updated_at":"2024-01-01T00:00:00Z"},{"name":"beta","region":"CN","os":"linux","cpu_name":"EPYC","cpu_cores":4,"mem_total":1073741824,"disk_total":2147483648},{"uuid":"u3"}]}''\<close>

definition exAlpha :: js where
  "exAlpha = JObj [(ascii ''name'', JStr (ascii ''alpha'')),
                   (ascii ''updated_at'', JStr (ascii ''2024-01-01T00:00:00Z''))]"

definition exBeta :: js where
  "exBeta = JObj [(ascii ''name'', JStr (ascii ''beta'')), (ascii ''region'', JStr (ascii ''CN'')),
                  (ascii ''os'', JStr (ascii ''linux'')), (ascii ''cpu_name'', JStr (ascii ''EPYC'')),
                  (ascii ''cpu_cores'', JNum 4), (ascii ''mem_total'', JNum 1073741824),
                  (ascii ''disk_total'', JNum 2147483648)]"

definition exGamma :: js where
  "exGamma = JObj [(ascii ''uuid'', JStr (ascii ''u3''))]"

definition exListJson :: js where
  "exListJson = JObj [(ascii ''status'', JStr (ascii ''success'')),
                      (ascii ''data'', JArr [exAlpha, exBeta, exGamma])]"

definition exStaticBody :: jsstring where
  \<open>exStaticBody = ascii ''{"status":"success","data":[{"id":"n1","uuid":"u1","name":"B","os":"linux","mem_total":1073741824}]}''\<close>

definition exStaticNode :: js where
  "exStaticNode = JObj [(ascii ''id'', JStr (ascii ''n1'')), (ascii ''uuid'', JStr (ascii ''u1'')),
                        (ascii ''name'', JStr (ascii ''B'')), (ascii ''os'', JStr (ascii ''linux'')),
                        (ascii ''mem_total'', JNum 1073741824)]"

definition exStaticJson :: js where
  "exStaticJson = JObj [(ascii ''status'', JStr (ascii ''success'')), (ascii ''data'', JArr [exStaticNode])]"

definition exMessageMerge :: jsstring where
  \<open>exMessageMerge = ascii ''[{"uuid":"u1","name":"A"},{"id":"n1","region":"CN"}]''\<close>

definition exMessageMergeJson :: js where
  "exMessageMergeJson =
     JArr [JObj [(ascii ''uuid'', JStr (ascii ''u1'')), (ascii ''name'', JStr (ascii ''A''))],
           JObj [(ascii ''id'', JStr (ascii ''n1'')), (ascii ''region'', JStr (ascii ''CN''))]]"

definition exMessageOtherUuid :: jsstring where
  \<open>exMessageOtherUuid = ascii ''[{"uuid":"u9","id":"n1"}]''\<close>

definition exMessageOtherUuidJson :: js where
  "exMessageOtherUuidJson =
     JArr [JObj [(ascii ''uuid'', JStr (ascii ''u9'')), (ascii ''id'', JStr (ascii ''n1''))]]"

definition exMessageOnline :: jsstring where
  \<open>exMessageOnline = ascii ''{"online":["u1","n1","gone"],"data":{"u1":{"uuid":"u1","name":"A"},"gone":null}}''\<close>

definition exMessageOnlineJson :: js where
  "exMessageOnlineJson =
     JObj [(ascii ''online'', JArr [JStr (ascii ''u1''), JStr (ascii ''n1''), JStr (ascii ''gone'')]),
           (ascii ''data'', JObj [(ascii ''u1'', JObj [(ascii ''uuid'', JStr (ascii ''u1'')),
                                                       (ascii ''name'', JStr (ascii ''A''))]),
                                  (ascii ''gone'', JNull)])]"

definition exMessageMixed :: jsstring where
  \<open>exMessageMixed = ascii ''[{"uuid":"u1","name":"A","cpu":{"usage":12.5},"uptime":90061},"{oops","{}"]''\<close>

definition exMessageMixedJson :: js where
  "exMessageMixedJson =
     JArr [JObj [(ascii ''uuid'', JStr (ascii ''u1'')), (ascii ''name'', JStr (ascii ''A'')),
                 (ascii ''cpu'', JObj [(ascii ''usage'', JNum (25 / 2))]),
                 (ascii ''uptime'', JNum 90061)],
           JStr (ascii ''{oops''), JStr (ascii ''{}'')]"

definition exMessageBuiltin :: jsstring where
  \<open>exMessageBuiltin = ascii ''{"online":["constructor"],"data":{"constructor":{"uuid":"constructor"}}}''\<close>

definition exMessageBuiltinJson :: js where
  "exMessageBuiltinJson =
     JObj [(ascii ''online'', JArr [JStr (ascii ''constructor'')]),
           (ascii ''data'', JObj [(ascii ''constructor'', JObj [(ascii ''uuid'', JStr (ascii ''constructor''))])])]"

definition exMessageInherited :: jsstring where
  \<open>exMessageInherited = ascii ''{"online":["constructor"],"data":{}}''\<close>

definition exMessageInheritedJson :: js where
  "exMessageInheritedJson =
     JObj [(ascii ''online'', JArr [JStr (ascii ''constructor'')]), (ascii ''data'', JObj [])]"

definition exJson :: "jsstring \<Rightarrow> js option" where
  "exJson = map_of
     [(exListBody, exListJson), (exStaticBody, exStaticJson),
      (exMessageMerge, exMessageMergeJson), (exMessageOtherUuid, exMessageOtherUuidJson),
      (exMessageOnline, exMessageOnlineJson), (exMessageMixed, exMessageMixedJson),
      (exMessageBuiltin, exMessageBuiltinJson), (exMessageInherited, exMessageInheritedJson),
      (ascii ''{}'', JObj [])]"

text \<open>The runtime of the first examples, reading these texts.\<close>
definition exEngine :: runtime where
  "exEngine = exRuntime \<lparr>jsonParse := exJson\<rparr>"

text \<open>
  A server at \<open>k.example\<close> that answers \<open>/api/nodes\<close> with the given body and whose socket
  sends the given first message.
\<close>
definition exServer :: "jsstring \<Rightarrow> jsstring \<Rightarrow> network" where
  "exServer nodesBody message = \<lparr>
     httpGet = (\<lambda>url hdrs.
       if url = ascii ''https://k.example/api/nodes'' then Reply 200 nodesBody else Reply 404 []),
     wsConnect = (\<lambda>url hdrs.
       if url = ascii ''wss://k.example/api/clients'' then WsMessage message else WsTimeout) \<rparr>"

section \<open>Facts about the runtime operations\<close>

lemma trim_empty_iff: "trim s = [] \<longleftrightarrow> list_all isWhiteSpace s"
proof
  assume "trim s = []"
  then have a: "dropWhile isWhiteSpace (rev (dropWhile isWhiteSpace s)) = []"
    by (simp add: trim_def)
  show "list_all isWhiteSpace s"
  proof (cases "dropWhile isWhiteSpace s")
    case Nil
    then show ?thesis by (simp add: list_all_iff)
  next
    case (Cons c cs)
    then have "\<not> isWhiteSpace c" using hd_dropWhile[of isWhiteSpace s] by auto
    moreover from a Cons have "\<forall>x \<in> set (c # cs). isWhiteSpace x"
      by simp
    ultimately show ?thesis by simp
  qed
next
  assume "list_all isWhiteSpace s"
  then have d: "dropWhile isWhiteSpace s = []" by (simp add: list_all_iff)
  show "trim s = []" unfolding trim_def d by simp
qed

lemma floor_rat_numeral_div:
  "\<lfloor>(numeral a :: rat) / numeral b\<rfloor> = numeral a div numeral b"
  by (metis floor_divide_of_int_eq of_int_numeral)

lemma decimal_digit: "n < 10 \<Longrightarrow> decimal n = [digitUnit n]"
  by (subst decimal.simps) simp

lemma decimal_step: "10 \<le> n \<Longrightarrow> decimal n = decimal (n div 10) @ [digitUnit (n mod 10)]"
  by (subst decimal.simps) simp

lemma decimal_not_Nil: "decimal n \<noteq> []"
  by (subst decimal.simps) simp

lemma length_decimal_le1: "length (decimal n) \<le> Suc 0 \<longleftrightarrow> n < 10"
proof (cases "n < 10")
  case True then show ?thesis by (simp add: decimal_digit)
next
  case False
  then have "length (decimal n) = Suc (length (decimal (n div 10)))" by (simp add: decimal_step)
  moreover have "length (decimal (n div 10)) \<noteq> 0" using decimal_not_Nil by simp
  ultimately show ?thesis using False by simp
qed

lemma length_decimal_le2: "length (decimal n) \<le> 2 \<longleftrightarrow> n < 100"
proof (cases "n < 10")
  case True then show ?thesis by (simp add: decimal_digit)
next
  case False
  then have "length (decimal n) = Suc (length (decimal (n div 10)))" by (simp add: decimal_step)
  moreover have "length (decimal (n div 10)) \<le> Suc 0 \<longleftrightarrow> n div 10 < 10" by (rule length_decimal_le1)
  ultimately show ?thesis by auto
qed

lemma digitUnit_0: "digitUnit 0 = 0x30"
  by (simp add: digitUnit_def)

text \<open>With one digit after the point, \<open>toFixed\<close> prints the tenths, rounded half up.\<close>
lemma toFixedDigits_1:
  "toFixedDigits 1 x =
     (let n = nat \<lfloor>x * 10 + 1 / 2\<rfloor> in decimal (n div 10) @ ascii ''.'' @ [digitUnit (n mod 10)])"
proof -
  define n where "n = nat \<lfloor>x * 10 + 1 / 2\<rfloor>"
  have "toFixedDigits 1 x = decimal (n div 10) @ ascii ''.'' @ [digitUnit (n mod 10)]"
  proof (cases "n < 10")
    case True
    then show ?thesis
      by (simp add: toFixedDigits_def Let_def n_def[symmetric] decimal_digit digitUnit_0)
  next
    case False
    then have "\<not> length (decimal n) \<le> Suc 0" by (simp add: length_decimal_le1)
    with False show ?thesis
      by (simp add: toFixedDigits_def Let_def n_def[symmetric] decimal_step)
  qed
  then show ?thesis by (simp add: Let_def n_def)
qed

text \<open>With two digits, the hundredths.\<close>
lemma toFixedDigits_2:
  "toFixedDigits 2 x =
     (let n = nat \<lfloor>x * 100 + 1 / 2\<rfloor>
      in decimal (n div 100) @ ascii ''.'' @ [digitUnit (n div 10 mod 10), digitUnit (n mod 10)])"
proof -
  define n where "n = nat \<lfloor>x * 100 + 1 / 2\<rfloor>"
  have n': "nat \<lfloor>x * 10\<^sup>2 + 1 / 2\<rfloor> = n" by (simp add: n_def)
  have "toFixedDigits 2 x = decimal (n div 100) @ ascii ''.'' @ [digitUnit (n div 10 mod 10), digitUnit (n mod 10)]"
  proof (cases "n < 10")
    case True
    then show ?thesis unfolding toFixedDigits_def Let_def n'
      by (simp add: decimal_digit digitUnit_0 numeral_2_eq_2)
  next
    case False
    note ge10 = this
    show ?thesis
    proof (cases "n < 100")
      case True
      have d: "decimal n = [digitUnit (n div 10), digitUnit (n mod 10)]"
        using ge10 True by (simp add: decimal_step decimal_digit)
      show ?thesis using True ge10 unfolding toFixedDigits_def Let_def n'
        by (simp add: d decimal_digit digitUnit_0)
    next
      case False
      then have l: "\<not> length (decimal n) \<le> 2" by (simp add: length_decimal_le2)
      have "decimal n = decimal (n div 10) @ [digitUnit (n mod 10)]"
        using False by (simp add: decimal_step)
      moreover have "decimal (n div 10) = decimal (n div 10 div 10) @ [digitUnit (n div 10 mod 10)]"
        using False by (intro decimal_step) simp
      ultimately have d: "decimal n = decimal (n div 100) @ [digitUnit (n div 10 mod 10), digitUnit (n mod 10)]"
        by (simp add: div_mult2_eq[symmetric])
      show ?thesis using l unfolding toFixedDigits_def Let_def n'
        by (simp add: d)
    qed
  qed
  then show ?thesis by (simp add: Let_def n_def)
qed

section \<open>Headers\<close>

lemma fetchApi_actions:
  "snd (fetchApi rt net cfg endpoint) =
     (if getBaseUrl cfg = [] then [] else [HttpGet (getBaseUrl cfg @ endpoint) (buildHeaders cfg)])"
  by (simp add: fetchApi_def Let_def)

lemma getRealtimeStatus_actions:
  "snd (getRealtimeStatus rt net cfg) =
     (if getBaseUrl cfg = [] then []
      else [HttpGet (getBaseUrl cfg @ ascii ''/api/nodes'') (buildHeaders cfg),
            WsOpen (replaceFirst (ascii ''http://'') (ascii ''ws://'')
                      (replaceFirst (ascii ''https://'') (ascii ''wss://'') (getBaseUrl cfg))
                    @ ascii ''/api/clients'')
                   (buildHeaders cfg)])"
  by (simp add: getRealtimeStatus_def Let_def split_beta fetchApi_actions)

text \<open>
  Claim C10. \<open>buildHeaders\<close> trims the configured token. When the token is absent,
  empty or made of whitespace only, the header map is empty; for every other token it
  holds exactly \<open>Authorization: Bearer <token>\<close> and \<open>Cookie: session_token=<token>\<close>,
  with the trimmed token. The HTTP request of \<open>fetchApi\<close> and the WebSocket of
  \<open>getRealtimeStatus\<close> both carry this map and nothing else.
\<close>
theorem buildHeaders_trims_token:
  "buildHeaders cfg =
     (case komariToken cfg of
        None \<Rightarrow> []
      | Some tok \<Rightarrow>
          if list_all isWhiteSpace tok then []
          else [(ascii ''Authorization'', ascii ''Bearer '' @ trim tok),
                (ascii ''Cookie'', ascii ''session_token='' @ trim tok)])
   \<and> snd (fetchApi rt net cfg endpoint) =
       (if getBaseUrl cfg = [] then [] else [HttpGet (getBaseUrl cfg @ endpoint) (buildHeaders cfg)])
   \<and> snd (getRealtimeStatus rt net cfg) =
       (if getBaseUrl cfg = [] then []
        else [HttpGet (getBaseUrl cfg @ ascii ''/api/nodes'') (buildHeaders cfg),
              WsOpen (replaceFirst (ascii ''http://'') (ascii ''ws://'')
                        (replaceFirst (ascii ''https://'') (ascii ''wss://'') (getBaseUrl cfg))
                      @ ascii ''/api/clients'')
                     (buildHeaders cfg)])"
proof -
  have "buildHeaders cfg =
     (case komariToken cfg of
        None \<Rightarrow> []
      | Some tok \<Rightarrow>
          if list_all isWhiteSpace tok then []
          else [(ascii ''Authorization'', ascii ''Bearer '' @ trim tok),
                (ascii ''Cookie'', ascii ''session_token='' @ trim tok)])"
    by (simp add: buildHeaders_def trim_empty_iff split: option.split)
  then show ?thesis
    using fetchApi_actions [of rt net cfg endpoint] getRealtimeStatus_actions [of rt net cfg]
    by blast
qed

theorem buildHeaders_trims_token_witness:
  "buildHeaders \<lparr>komariUrl = None, komariToken = Some (ascii '' abc  '')\<rparr> =
     [(ascii ''Authorization'', ascii ''Bearer abc''), (ascii ''Cookie'', ascii ''session_token=abc'')]
   \<and> buildHeaders \<lparr>komariUrl = None, komariToken = Some (ascii ''  '')\<rparr> = []
   \<and> buildHeaders \<lparr>komariUrl = None, komariToken = None\<rparr> = []"
  using buildHeaders_trims_token [THEN conjunct1, of "\<lparr>komariUrl = None, komariToken = Some (ascii '' abc  '')\<rparr>"]
        buildHeaders_trims_token [THEN conjunct1, of "\<lparr>komariUrl = None, komariToken = Some (ascii ''  '')\<rparr>"]
        buildHeaders_trims_token [THEN conjunct1, of "\<lparr>komariUrl = None, komariToken = None\<rparr>"]
  by (simp add: trim_def isWhiteSpace_def ascii_def)

section \<open>A missing server address\<close>

lemma getBaseUrl_empty_iff:
  "getBaseUrl cfg = [] \<longleftrightarrow>
     (case komariUrl cfg of None \<Rightarrow> True | Some u \<Rightarrow> list_all (\<lambda>c. c = 0x2F) u)"
  by (auto simp: getBaseUrl_def stripTrailingSlashes_def list_all_iff split: option.split)

lemma msgConfigMissing_not_Nil: "msgConfigMissing \<noteq> []"
  by (simp add: msgConfigMissing_def)

lemma fetchApi_no_base:
  "getBaseUrl cfg = [] \<Longrightarrow> fetchApi rt net cfg endpoint = (fetchError msgConfigMissing, [])"
  by (simp add: fetchApi_def)

lemma errorOf_fetchError: "errorOf (fetchError t) = (if t \<noteq> [] then Some t else None)"
  by (simp add: errorOf_def fetchError_def)

lemma exConfigNoUrl_url:
  "komariUrl exConfigNoUrl = Some (ascii ''//'') \<and> stripTrailingSlashes (ascii ''//'') = []"
  by (simp add: exConfigNoUrl_def stripTrailingSlashes_def ascii_def)

text \<open>
  Claim C4. When the configured address is missing, empty, or empty once its trailing
  slashes are stripped, \<open>fetchApi\<close> and the four entry points return the message of the
  missing server address at once, and the list of network actions is empty: no HTTP
  request, no WebSocket.
\<close>
theorem missing_base_url_no_network:
  assumes "komariUrl cfg = None \<or> (komariUrl cfg = Some u \<and> stripTrailingSlashes u = [])"
  shows "fetchApi rt net cfg endpoint = (fetchError msgConfigMissing, [])
       \<and> f_error (fetchError msgConfigMissing) = Some msgConfigMissing
       \<and> getVersionInfo rt net cfg = (Inr msgConfigMissing, [])
       \<and> getPublicSettings rt net cfg = (Inr msgConfigMissing, [])
       \<and> getNodesStatus rt net cfg nowUtc = (Inr (Error msgConfigMissing), [])
       \<and> getRealtimeStatus rt net cfg = (Inr (Error msgConfigMissing), [])"
proof -
  have base: "getBaseUrl cfg = []"
    using assms by (auto simp: getBaseUrl_def stripTrailingSlashes_def)
  note f = fetchApi_no_base [OF base]
  have e: "errorOf (fetchError msgConfigMissing) = Some msgConfigMissing"
    by (simp add: errorOf_fetchError msgConfigMissing_not_Nil)
  have 1: "getVersionInfo rt net cfg = (Inr msgConfigMissing, [])"
    by (simp add: getVersionInfo_def f e)
  have 2: "getPublicSettings rt net cfg = (Inr msgConfigMissing, [])"
    by (simp add: getPublicSettings_def f e)
  have 3: "getNodesStatus rt net cfg nowUtc = (Inr (Error msgConfigMissing), [])"
    by (simp add: getNodesStatus_def f e)
  have 4: "getRealtimeStatus rt net cfg = (Inr (Error msgConfigMissing), [])"
    by (simp add: getRealtimeStatus_def base)
  show ?thesis using f 1 2 3 4 by (simp add: fetchError_def)
qed

theorem missing_base_url_no_network_witness:
  "komariUrl exConfigNoUrl = Some (ascii ''//'') \<and> stripTrailingSlashes (ascii ''//'') = []
   \<and> fetchApi exRuntime exNet exConfigNoUrl (ascii ''/api/nodes'') = (fetchError msgConfigMissing, [])
   \<and> getVersionInfo exRuntime exNet exConfigNoUrl = (Inr msgConfigMissing, [])
   \<and> getPublicSettings exRuntime exNet exConfigNoUrl = (Inr msgConfigMissing, [])
   \<and> getNodesStatus exRuntime exNet exConfigNoUrl 0 = (Inr (Error msgConfigMissing), [])
   \<and> getRealtimeStatus exRuntime exNet exConfigNoUrl = (Inr (Error msgConfigMissing), [])"
proof -
  have h: "komariUrl exConfigNoUrl = None
         \<or> (komariUrl exConfigNoUrl = Some (ascii ''//'') \<and> stripTrailingSlashes (ascii ''//'') = [])"
    using exConfigNoUrl_url by blast
  show ?thesis
    using missing_base_url_no_network [OF h, of exRuntime exNet "ascii ''/api/nodes''" 0]
          exConfigNoUrl_url
    by blast
qed

section \<open>Units of the network formatters\<close>

lemma toFixed_small: "0 \<le> x \<Longrightarrow> x < 10 ^ 21 \<Longrightarrow> toFixed rt f x = toFixedDigits f x"
  by (simp add: toFixed_def Let_def)

lemma fmtSpeed_KB:
  assumes "0 \<le> b" "b \<le> 1048576"
  shows "fmtSpeed rt b = toFixedDigits 1 (b / 1024) @ ascii '' KB/s''"
proof -
  have "b / 1024 < 10 ^ 21" using assms by simp
  moreover have "0 \<le> b / 1024" using assms by simp
  ultimately have "toFixed rt 1 (b / 1024) = toFixedDigits 1 (b / 1024)" by (rule toFixed_small[rotated])
  then show ?thesis using assms by (simp add: fmtSpeed_def)
qed

lemma fmtSpeed_MB:
  assumes "1048576 < b" "b < 1048576 * 10 ^ 21"
  shows "fmtSpeed rt b = toFixedDigits 1 (b / 1024 / 1024) @ ascii '' MB/s''"
proof -
  have "b / 1024 / 1024 < 10 ^ 21" using assms by simp
  moreover have "0 \<le> b / 1024 / 1024" using assms by simp
  ultimately have "toFixed rt 1 (b / 1024 / 1024) = toFixedDigits 1 (b / 1024 / 1024)" by (rule toFixed_small[rotated])
  then show ?thesis using assms by (simp add: fmtSpeed_def)
qed

lemma fmtTraffic_MB:
  assumes "0 \<le> b" "b \<le> 1073741824"
  shows "fmtTraffic rt b = toFixedDigits 2 (b / 1024 ^ 2) @ ascii '' MB''"
proof -
  have "b / 1024 ^ 2 < 10 ^ 21" using assms by simp
  moreover have "0 \<le> b / 1024 ^ 2" using assms by simp
  ultimately have "toFixed rt 2 (b / 1024 ^ 2) = toFixedDigits 2 (b / 1024 ^ 2)" by (rule toFixed_small[rotated])
  then show ?thesis using assms by (simp add: fmtTraffic_def)
qed

lemma fmtTraffic_GB:
  assumes "1073741824 < b" "b < 1073741824 * 10 ^ 21"
  shows "fmtTraffic rt b = toFixedDigits 2 (b / 1024 ^ 3) @ ascii '' GB''"
proof -
  have "b / 1024 ^ 3 < 10 ^ 21" using assms by simp
  moreover have "0 \<le> b / 1024 ^ 3" using assms by simp
  ultimately have "toFixed rt 2 (b / 1024 ^ 3) = toFixedDigits 2 (b / 1024 ^ 3)" by (rule toFixed_small[rotated])
  then show ?thesis using assms by (simp add: fmtTraffic_def)
qed

lemma tenths_text:
  "nat \<lfloor>x * 10 + 1 / 2\<rfloor> = n \<Longrightarrow> n div 10 = q \<Longrightarrow> n mod 10 = r \<Longrightarrow>
   toFixedDigits 1 x = decimal q @ ascii ''.'' @ [digitUnit r]"
  by (simp only: toFixedDigits_1 Let_def)

lemma hundredths_text:
  "nat \<lfloor>x * 100 + 1 / 2\<rfloor> = n \<Longrightarrow> n div 100 = q \<Longrightarrow> n div 10 mod 10 = r1 \<Longrightarrow> n mod 10 = r2 \<Longrightarrow>
   toFixedDigits 2 x = decimal q @ ascii ''.'' @ [digitUnit r1, digitUnit r2]"
  by (simp only: toFixedDigits_2 Let_def)

lemma decimal_1024: "decimal 1024 = ascii ''1024''"
  by (simp add: decimal.simps digitUnit_def ascii_def)

lemma decimal_1: "decimal (Suc 0) = ascii ''1''"
  by (simp add: decimal_digit digitUnit_def ascii_def)

lemma speed_1048575: "fmtSpeed rt 1048575 = ascii ''1024.0 KB/s''"
proof -
  have "toFixedDigits 1 (1048575 / 1024) = decimal 1024 @ ascii ''.'' @ [digitUnit 0]"
    by (rule tenths_text[where n = 10240]) (simp_all add: floor_rat_numeral_div)
  then show ?thesis
    by (simp add: fmtSpeed_KB decimal_1024) (simp add: ascii_def digitUnit_def)
qed

lemma speed_1048576: "fmtSpeed rt 1048576 = ascii ''1024.0 KB/s''"
proof -
  have "toFixedDigits 1 (1048576 / 1024) = decimal 1024 @ ascii ''.'' @ [digitUnit 0]"
    by (rule tenths_text[where n = 10240]) (simp_all add: floor_rat_numeral_div)
  then show ?thesis
    by (simp add: fmtSpeed_KB decimal_1024) (simp add: ascii_def digitUnit_def)
qed

lemma speed_1048577: "fmtSpeed rt 1048577 = ascii ''1.0 MB/s''"
proof -
  have "toFixedDigits 1 (1048577 / 1024 / 1024) = decimal 1 @ ascii ''.'' @ [digitUnit 0]"
    by (rule tenths_text[where n = 10]) (simp_all add: floor_rat_numeral_div)
  then show ?thesis
    by (simp add: fmtSpeed_MB decimal_1) (simp add: ascii_def digitUnit_def)
qed

lemma traffic_1073741824: "fmtTraffic rt 1073741824 = ascii ''1024.00 MB''"
proof -
  have "toFixedDigits 2 (1073741824 / 1024 ^ 2) = decimal 1024 @ ascii ''.'' @ [digitUnit 0, digitUnit 0]"
    by (rule hundredths_text[where n = 102400]) (simp_all add: floor_rat_numeral_div)
  then show ?thesis
    by (simp add: fmtTraffic_MB decimal_1024) (simp add: ascii_def digitUnit_def)
qed

lemma traffic_1073741825: "fmtTraffic rt 1073741825 = ascii ''1.00 GB''"
proof -
  have "toFixedDigits 2 (1073741825 / 1024 ^ 3) = decimal 1 @ ascii ''.'' @ [digitUnit 0, digitUnit 0]"
    by (rule hundredths_text[where n = 100]) (simp_all add: floor_rat_numeral_div)
  then show ?thesis
    by (simp add: fmtTraffic_GB decimal_1) (simp add: ascii_def digitUnit_def)
qed

text \<open>
  Claim C3, at the threshold itself. The guard of \<open>fmtSpeed\<close> is \<open>b > 1024 * 1024\<close>, so a
  speed of exactly 1048576 bytes per second is printed in KB/s, as \<open>1024.0 KB/s\<close>, and
  not as \<open>1.0 MB/s\<close>.
\<close>
theorem speed_at_one_mebibyte_counterexample:
  "fmtSpeed exRuntime 1048576 = ascii ''1024.0 KB/s'' \<and> fmtSpeed exRuntime 1048576 \<noteq> ascii ''1.0 MB/s''"
  by (simp add: speed_1048576) (simp add: ascii_def)

text \<open>
  Claim C3, as the code has it. A speed from 0 to 1048576 bytes per second (inclusive)
  prints as \<open>X.X KB/s\<close>, the tenths of a KiB rounded half up; a larger one prints as
  \<open>X.X MB/s\<close>. Cumulative traffic from 0 to 1073741824 bytes (inclusive) prints as
  \<open>X.XX MB\<close>, a larger amount as \<open>X.XX GB\<close>. So 1048575 and 1048576 both give
  \<open>1024.0 KB/s\<close>, 1048577 gives \<open>1.0 MB/s\<close>, 1 GiB gives \<open>1024.00 MB\<close> and one byte more
  \<open>1.00 GB\<close>. (The upper bounds keep \<open>toFixed\<close> below \<open>10^21\<close>, where it leaves the
  fixed notation.)
\<close>
theorem formatters_switch_above_threshold:
  "(0 \<le> b \<and> b \<le> 1048576 \<longrightarrow>
      fmtSpeed rt b =
        (let n = nat \<lfloor>b / 1024 * 10 + 1 / 2\<rfloor>
         in decimal (n div 10) @ ascii ''.'' @ [digitUnit (n mod 10)]) @ ascii '' KB/s'')
   \<and> (1048576 < b \<and> b < 1048576 * 10 ^ 21 \<longrightarrow>
      fmtSpeed rt b =
        (let n = nat \<lfloor>b / 1024 / 1024 * 10 + 1 / 2\<rfloor>
         in decimal (n div 10) @ ascii ''.'' @ [digitUnit (n mod 10)]) @ ascii '' MB/s'')
   \<and> (0 \<le> b \<and> b \<le> 1073741824 \<longrightarrow>
      fmtTraffic rt b =
        (let n = nat \<lfloor>b / 1024 ^ 2 * 100 + 1 / 2\<rfloor>
         in decimal (n div 100) @ ascii ''.'' @ [digitUnit (n div 10 mod 10), digitUnit (n mod 10)])
        @ ascii '' MB'')
   \<and> (1073741824 < b \<and> b < 1073741824 * 10 ^ 21 \<longrightarrow>
      fmtTraffic rt b =
        (let n = nat \<lfloor>b / 1024 ^ 3 * 100 + 1 / 2\<rfloor>
         in decimal (n div 100) @ ascii ''.'' @ [digitUnit (n div 10 mod 10), digitUnit (n mod 10)])
        @ ascii '' GB'')
   \<and> fmtSpeed rt 1048575 = ascii ''1024.0 KB/s''
   \<and> fmtSpeed rt 1048576 = ascii ''1024.0 KB/s''
   \<and> fmtSpeed rt 1048577 = ascii ''1.0 MB/s''
   \<and> fmtTraffic rt 1073741824 = ascii ''1024.00 MB''
   \<and> fmtTraffic rt 1073741825 = ascii ''1.00 GB''"
proof -
  have a: "0 \<le> b \<and> b \<le> 1048576 \<longrightarrow>
      fmtSpeed rt b =
        (let n = nat \<lfloor>b / 1024 * 10 + 1 / 2\<rfloor>
         in decimal (n div 10) @ ascii ''.'' @ [digitUnit (n mod 10)]) @ ascii '' KB/s''"
    using fmtSpeed_KB[of b rt] by (simp only: toFixedDigits_1) blast
  have b: "1048576 < b \<and> b < 1048576 * 10 ^ 21 \<longrightarrow>
      fmtSpeed rt b =
        (let n = nat \<lfloor>b / 1024 / 1024 * 10 + 1 / 2\<rfloor>
         in decimal (n div 10) @ ascii ''.'' @ [digitUnit (n mod 10)]) @ ascii '' MB/s''"
    using fmtSpeed_MB[of b rt] by (simp only: toFixedDigits_1) blast
  have c: "0 \<le> b \<and> b \<le> 1073741824 \<longrightarrow>
      fmtTraffic rt b =
        (let n = nat \<lfloor>b / 1024 ^ 2 * 100 + 1 / 2\<rfloor>
         in decimal (n div 100) @ ascii ''.'' @ [digitUnit (n div 10 mod 10), digitUnit (n mod 10)])
        @ ascii '' MB''"
    using fmtTraffic_MB[of b rt] by (simp only: toFixedDigits_2) blast
  have d: "1073741824 < b \<and> b < 1073741824 * 10 ^ 21 \<longrightarrow>
      fmtTraffic rt b =
        (let n = nat \<lfloor>b / 1024 ^ 3 * 100 + 1 / 2\<rfloor>
         in decimal (n div 100) @ ascii ''.'' @ [digitUnit (n div 10 mod 10), digitUnit (n mod 10)])
        @ ascii '' GB''"
    using fmtTraffic_GB[of b rt] by (simp only: toFixedDigits_2) blast
  show ?thesis
    using a b c d speed_1048575 speed_1048576 speed_1048577 traffic_1073741824 traffic_1073741825
    by blast
qed

lemma decimal_512: "decimal 512 = ascii ''512''"
  by (simp add: decimal.simps digitUnit_def ascii_def)

lemma decimal_2: "decimal 2 = ascii ''2''"
  by (simp add: decimal.simps digitUnit_def ascii_def)

theorem formatters_switch_above_threshold_witness:
  "fmtSpeed exRuntime 524288 = ascii ''512.0 KB/s''
   \<and> fmtSpeed exRuntime 2097152 = ascii ''2.0 MB/s''
   \<and> fmtTraffic exRuntime 536870912 = ascii ''512.00 MB''
   \<and> fmtTraffic exRuntime 2147483648 = ascii ''2.00 GB''"
proof -
  have n1: "nat \<lfloor>(524288::rat) / 1024 * 10 + 1 / 2\<rfloor> = 5120" by (simp add: floor_rat_numeral_div)
  have n2: "nat \<lfloor>(2097152::rat) / 1024 / 1024 * 10 + 1 / 2\<rfloor> = 20" by (simp add: floor_rat_numeral_div)
  have n3: "nat \<lfloor>(536870912::rat) / 1024 ^ 2 * 100 + 1 / 2\<rfloor> = 51200" by (simp add: floor_rat_numeral_div)
  have n4: "nat \<lfloor>(2147483648::rat) / 1024 ^ 3 * 100 + 1 / 2\<rfloor> = 200" by (simp add: floor_rat_numeral_div)
  have 1: "fmtSpeed exRuntime 524288 = ascii ''512.0 KB/s''"
    using formatters_switch_above_threshold [of 524288 exRuntime]
    by (simp only: n1 Let_def) (simp add: decimal_512 digitUnit_def ascii_def)
  have 2: "fmtSpeed exRuntime 2097152 = ascii ''2.0 MB/s''"
    using formatters_switch_above_threshold [of 2097152 exRuntime]
    by (simp only: n2 Let_def) (simp add: decimal_2 digitUnit_def ascii_def)
  have 3: "fmtTraffic exRuntime 536870912 = ascii ''512.00 MB''"
    using formatters_switch_above_threshold [of 536870912 exRuntime]
    by (simp only: n3 Let_def) (simp add: decimal_512 digitUnit_def ascii_def)
  have 4: "fmtTraffic exRuntime 2147483648 = ascii ''2.00 GB''"
    using formatters_switch_above_threshold [of 2147483648 exRuntime]
    by (simp only: n4 Let_def) (simp add: decimal_2 digitUnit_def ascii_def)
  show ?thesis using 1 2 3 4 by blast
qed

section \<open>Envelopes of the HTTP endpoints\<close>

lemma fetchApi_ok:
  assumes "getBaseUrl cfg \<noteq> []"
    and "httpGet net (getBaseUrl cfg @ endpoint) (buildHeaders cfg) = Reply status body"
    and "respOk status"
    and "jsonParse rt body = Some json"
    and "\<not> nullish json"
  shows "fetchApi rt net cfg endpoint =
           (\<lparr>f_data = coalesce (getp json (ascii ''data'')) json, f_error = None, f_raw = json\<rparr>,
            [HttpGet (getBaseUrl cfg @ endpoint) (buildHeaders cfg)])"
  using assms by (simp add: fetchApi_def Let_def)


lemma errorOf_ok [simp]: "errorOf \<lparr>f_data = d, f_error = None, f_raw = r\<rparr> = None"
  by (simp add: errorOf_def)


text \<open>
  Claim C5. When \<open>/api/nodes\<close> answers with a status from 200 to 299 and an envelope whose
  \<open>status\<close> is \<open>success\<close> and whose \<open>data\<close> is the empty array or is absent,
  \<open>getNodesStatus\<close> returns the error "no node found." and no report text.
\<close>
theorem empty_node_list_is_error:
  assumes "getBaseUrl cfg \<noteq> []"
    and "httpGet net (getBaseUrl cfg @ ascii ''/api/nodes'') (buildHeaders cfg) = Reply status body"
    and "respOk status"
    and "jsonParse rt body = Some (JObj kvs)"
    and "map_of kvs (ascii ''status'') = Some (JStr (ascii ''success''))"
    and "map_of kvs (ascii ''data'') = None \<or> map_of kvs (ascii ''data'') = Some (JArr [])"
  shows "fst (getNodesStatus rt net cfg nowUtc) = Inr (Error msgNoNodes)"
proof -
  have n: "\<not> nullish (JObj kvs)" by (simp add: nullish_def)
  note f = fetchApi_ok [OF assms(1-4) n]
  have nodes: "orElse (getp (JObj kvs) (ascii ''data'')) (JArr []) = JArr []"
    using assms(6) by (auto simp: orElse_def)
  have st: "getp (JObj kvs) (ascii ''status'') = JStr (ascii ''success'')"
    using assms(5) by simp
  show ?thesis
    by (simp add: getNodesStatus_def f Let_def nodes st del: getp.simps)
qed

lemma exConfig_base: "getBaseUrl exConfig = ascii ''https://k.example''"
  by (simp add: getBaseUrl_def exConfig_def stripTrailingSlashes_def ascii_def)

lemma exParse_empty_nodes:
  \<open>exParse (ascii ''{"status":"success","data":[]}'') =
     Some (JObj [(ascii ''status'', JStr (ascii ''success'')), (ascii ''data'', JArr [])])\<close>
  by (simp add: exParse_def ascii_def)

theorem empty_node_list_is_error_witness:
  "fst (getNodesStatus exRuntime exNetEmpty exConfig 0) = Inr (Error msgNoNodes)"
proof -
  have 1: "getBaseUrl exConfig \<noteq> []" by (simp add: exConfig_base ascii_def)
  have 2: \<open>httpGet exNetEmpty (getBaseUrl exConfig @ ascii ''/api/nodes'') (buildHeaders exConfig)
             = Reply 200 (ascii ''{"status":"success","data":[]}'')\<close>
    by (simp add: exNetEmpty_def)
  have 3: "respOk 200" by (simp add: respOk_def)
  have 4: \<open>jsonParse exRuntime (ascii ''{"status":"success","data":[]}'') =
             Some (JObj [(ascii ''status'', JStr (ascii ''success'')), (ascii ''data'', JArr [])])\<close>
    by (simp add: exRuntime_def exParse_empty_nodes)
  have 5: "map_of [(ascii ''status'', JStr (ascii ''success'')), (ascii ''data'', JArr [])] (ascii ''status'')
             = Some (JStr (ascii ''success''))"
    by simp
  have 6: "map_of [(ascii ''status'', JStr (ascii ''success'')), (ascii ''data'', JArr [])] (ascii ''data'') = None
         \<or> map_of [(ascii ''status'', JStr (ascii ''success'')), (ascii ''data'', JArr [])] (ascii ''data'') = Some (JArr [])"
    by (simp add: ascii_def)
  show ?thesis by (rule empty_node_list_is_error [OF 1 2 3 4 5 6])
qed














lemma exConfig_base_not_Nil: "getBaseUrl exConfig \<noteq> []"
  by (simp add: exConfig_base ascii_def)

lemma respOk_200: "respOk 200"
  by (simp add: respOk_def)


section \<open>The node-list report\<close>

lemma getp_setp_same: "getp (setp (JObj kvs) k v) k = v"
  by (simp add: update_conv')

lemma getp_setp_other: "k' \<noteq> k \<Longrightarrow> getp (setp (JObj kvs) k v) k' = getp (JObj kvs) k'"
  by (simp add: update_conv')

lemma diffSec_less: "(of_int d :: rat) / 1000 < 600 \<longleftrightarrow> d < 600000"
proof -
  have "(of_int d :: rat) / 1000 < 600 \<longleftrightarrow> (of_int d :: rat) < of_int 600000"
    by (simp add: pos_divide_less_eq)
  then show ?thesis by (simp only: of_int_less_iff)
qed

lemma icons_differ: "iconOnline \<noteq> iconOffline"
  by (simp add: iconOnline_def iconOffline_def)

lemma freshness_result:
  "freshness rt nowUtc (JObj kvs) updated =
     (case updated of
        JStr u \<Rightarrow>
          (case dateParse rt (isoOf u) of
             None \<Rightarrow> (False, JObj kvs)
           | Some t \<Rightarrow>
               (nowUtc - t < 600000,
                JObj (AList.update (ascii ''updated_at_cn'') (JStr (formatCn rt (t + tzOffsetMs))) kvs)))
      | _ \<Rightarrow> (False, JObj kvs))"
  unfolding freshness_def diffSec_less by (simp split: js.split option.split)

lemma freshness_obj: "\<exists>kvs'. snd (freshness rt nowUtc (JObj kvs) updated) = JObj kvs'"
  by (simp add: freshness_result split: js.split option.split)

lemma fst_freshness:
  "truthy updated \<Longrightarrow>
   fst (freshness rt nowUtc (JObj kvs) updated) \<longleftrightarrow>
     (\<exists>u t. updated = JStr u \<and> u \<noteq> [] \<and> dateParse rt (isoOf u) = Some t \<and> nowUtc - t < 600000)"
  by (cases updated) (auto simp: freshness_result split: option.split)

lemma processNode_obj:
  "processNode rt nowUtc (JObj kvs) =
     (let updated = getp (JObj kvs) (ascii ''updated_at'');
          p = (if truthy updated then freshness rt nowUtc (JObj kvs) updated else (False, JObj kvs))
      in Inr (setp (snd p) (ascii ''is_online'') (JBool (fst p))))"
  by (simp add: processNode_def nullish_def Let_def split_beta del: getp.simps setp.simps)

lemma exParse_date:
  "dateParse exRuntime (ascii ''2024-01-01T00:00:00+00:00'') = Some 1704067200000"
  by (simp add: exRuntime_def)

lemma isoOf_example: "isoOf (ascii ''2024-01-01T00:00:00Z'') = ascii ''2024-01-01T00:00:00+00:00''"
  by (simp add: isoOf_def endsWith_def ascii_def)

lemma toFixed_2_zero: "toFixed rt 2 0 = ascii ''0.00''"
proof -
  have "toFixedDigits 2 0 = decimal 0 @ ascii ''.'' @ [digitUnit 0, digitUnit 0]"
    by (rule hundredths_text[where n = 0]) simp_all
  then show ?thesis
    by (simp add: toFixed_small decimal_digit) (simp add: digitUnit_def ascii_def)
qed

lemma numberToString_0: "numberToString rt 0 = ascii ''0''"
  by (simp add: numberToString_def decimal_digit) (simp add: digitUnit_def ascii_def)

lemma bindE_Inr [simp]: "bindE (Inr v) f = f v"
  by (simp add: bindE_def)

lemma bindE_Inl [simp]: "bindE (Inl e) f = Inl e"
  by (simp add: bindE_def)

lemma coalesce_nullish: "nullish a \<Longrightarrow> coalesce a b = b"
  by (simp add: coalesce_def)

text \<open>The six lines of a node that has none of the displayed fields.\<close>
lemma renderNode_placeholders:
  assumes "nullish (getp n (ascii ''name''))" "nullish (getp n (ascii ''os''))"
    "nullish (getp n (ascii ''cpu_name''))" "nullish (getp n (ascii ''cpu_cores''))"
    "nullish (getp n (ascii ''region''))" "nullish (getp n (ascii ''mem_total''))"
    "nullish (getp n (ascii ''disk_total''))"
  shows "renderNode rt n =
     bindE (updatedLine rt n) (\<lambda>updLine.
       Inr ([[],
             pin @ statusIconOf n @ ascii ''  '' @ msgUnknown,
             lblSystem @ msgUnknown,
             ascii ''   CPU: '' @ msgUnknown @ ascii '' (0 C)'',
             lblMemory @ ascii ''0.00 GB'',
             lblDisk @ ascii ''0.00 GB'']
            @ updLine))"
  unfolding renderNode_def Let_def
  by (simp add: assms coalesce_nullish toFixed_2_zero numberToString_0 del: getp.simps) (simp add: ascii_def)

lemma renderNode_length:
  "renderNode rt n = Inr ls \<Longrightarrow> updatedLine rt n = Inr upd \<Longrightarrow> length ls = 6 + length upd"
  unfolding renderNode_def Let_def bindE_def
  by (auto split: sum.splits)

lemma updatedLine_none:
  assumes "\<not> truthy (getp n (ascii ''updated_at''))" "\<not> truthy (getp n (ascii ''updated_at_cn''))"
  shows "updatedLine rt n = Inr []"
  using assms by (simp add: updatedLine_def updatedValue_def Let_def del: getp.simps)

lemma key_is_online_neq:
  "ascii ''updated_at'' \<noteq> ascii ''is_online''" "ascii ''updated_at_cn'' \<noteq> ascii ''is_online''"
  "ascii ''name'' \<noteq> ascii ''is_online''" "ascii ''os'' \<noteq> ascii ''is_online''"
  "ascii ''cpu_name'' \<noteq> ascii ''is_online''" "ascii ''cpu_cores'' \<noteq> ascii ''is_online''"
  "ascii ''region'' \<noteq> ascii ''is_online''" "ascii ''mem_total'' \<noteq> ascii ''is_online''"
  "ascii ''disk_total'' \<noteq> ascii ''is_online''"
  by (simp_all add: ascii_def)

lemma processNode_no_timestamp:
  assumes "\<not> truthy (getp (JObj kvs) (ascii ''updated_at''))"
  shows "processNode rt nowUtc (JObj kvs) = Inr (setp (JObj kvs) (ascii ''is_online'') (JBool False))"
  using assms by (simp add: processNode_obj Let_def del: getp.simps setp.simps)

subsection \<open>Keys and lists\<close>

text \<open>
  The embedding of ASCII text into code units is injective, so whether two keys are
  equal is decided on the characters.
\<close>

lemma unat_of_char16: "unat (of_char c :: 16 word) = of_char c"
proof -
  have "(of_char c :: nat) < 2 ^ 16"
    by (rule less_trans [of _ 256]) (simp_all add: of_char_def)
  then have "(of_char c :: nat) mod 2 ^ 16 = of_char c" by simp
  moreover have "(of_char c :: 16 word) = of_nat (of_char c)" by (simp only: of_nat_of_char)
  ultimately show ?thesis by (simp only: unat_of_nat len_of_numeral_defs) simp
qed

lemma of_char16_inject: "(of_char c :: 16 word) = of_char d \<longleftrightarrow> c = d"
proof
  assume "(of_char c :: 16 word) = of_char d"
  then have "unat (of_char c :: 16 word) = unat (of_char d :: 16 word)" by simp
  then have "(of_char c :: nat) = of_char d" by (simp only: unat_of_char16)
  then show "c = d" by simp
qed simp

lemma ascii_inject: "ascii a = ascii b \<longleftrightarrow> a = b"
  unfolding ascii_def
proof (induction a arbitrary: b)
  case Nil then show ?case by auto
next
  case (Cons x xs)
  then show ?case by (cases b) (auto simp: of_char16_inject)
qed

lemma ascii_Nil_iff: "ascii a = [] \<longleftrightarrow> a = []"
  by (simp add: ascii_def)

lemma ascii_append: "ascii a @ ascii b = ascii (a @ b)"
  by (simp add: ascii_def)

lemma ascii_append2: "ascii a @ ascii b @ xs = ascii (a @ b) @ xs"
  by (simp add: ascii_def)

lemma all_below_two: "(\<forall>i < Suc (Suc 0). P i) \<longleftrightarrow> P 0 \<and> P (Suc 0)"
  by (auto simp: less_Suc_eq)

lemma all_below_three: "(\<forall>i < Suc (Suc (Suc 0)). P i) \<longleftrightarrow> P 0 \<and> P (Suc 0) \<and> P (Suc (Suc 0))"
  by (auto simp: less_Suc_eq)

lemma getp_update:
  "getp (JObj (AList.update k v kvs)) k' = (if k' = k then v else getp (JObj kvs) k')"
  by (simp add: update_conv')

lemma mapE_nth:
  "(\<And>i. i < length xs \<Longrightarrow> \<exists>y. f (xs ! i) = Inr y \<and> P i y) \<Longrightarrow>
   \<exists>ys. mapE f xs = Inr ys \<and> length ys = length xs \<and> (\<forall>i < length xs. f (xs ! i) = Inr (ys ! i) \<and> P i (ys ! i))"
proof (induction xs arbitrary: P)
  case Nil
  then show ?case by simp
next
  case (Cons x xs)
  from Cons.prems [of 0] obtain y where y: "f x = Inr y" "P 0 y" by auto
  have "\<And>i. i < length xs \<Longrightarrow> \<exists>y. f (xs ! i) = Inr y \<and> P (Suc i) y"
    using Cons.prems [of "Suc _"] by simp
  from Cons.IH [of "\<lambda>i. P (Suc i)", OF this]
  obtain ys where ys: "mapE f xs = Inr ys" "length ys = length xs"
    "\<forall>i < length xs. f (xs ! i) = Inr (ys ! i) \<and> P (Suc i) (ys ! i)"
    by blast
  have "\<forall>i < length (x # xs). f ((x # xs) ! i) = Inr ((y # ys) ! i) \<and> P i ((y # ys) ! i)"
  proof (intro allI impI)
    fix i assume "i < length (x # xs)"
    then show "f ((x # xs) ! i) = Inr ((y # ys) ! i) \<and> P i ((y # ys) ! i)"
      using y ys(3) by (cases i) simp_all
  qed
  moreover have "mapE f (x # xs) = Inr (y # ys)" by (simp add: y ys(1))
  moreover have "length (y # ys) = length (x # xs)" by (simp add: ys(2))
  ultimately show ?case by blast
qed

lemma mapE_Inr_nth:
  "mapE f xs = Inr ys \<Longrightarrow> length ys = length xs \<and> (\<forall>i < length xs. f (xs ! i) = Inr (ys ! i))"
proof (induction xs arbitrary: ys)
  case Nil
  then show ?case by simp
next
  case (Cons x xs)
  from Cons.prems obtain y ys' where y: "f x = Inr y" "mapE f xs = Inr ys'" "ys = y # ys'"
    by (auto simp: bindE_def split: sum.splits)
  from Cons.IH [OF y(2)] have ih: "length ys' = length xs" "\<forall>i < length xs. f (xs ! i) = Inr (ys' ! i)"
    by simp_all
  have "\<forall>i < length (x # xs). f ((x # xs) ! i) = Inr (ys ! i)"
  proof (intro allI impI)
    fix i assume "i < length (x # xs)"
    then show "f ((x # xs) ! i) = Inr (ys ! i)"
      using y ih(2) by (cases i) simp_all
  qed
  then show ?case using y(3) ih(1) by simp
qed

subsection \<open>The report of a list of nodes\<close>

text \<open>
  After the envelope and the empty list have been dealt with, the report is the header
  followed by the blocks of the nodes, each node first passing through the callback of
  \<open>nodes.map\<close>.
\<close>

lemma getNodesStatus_list:
  assumes "getBaseUrl cfg \<noteq> []"
    and "httpGet net (getBaseUrl cfg @ ascii ''/api/nodes'') (buildHeaders cfg) = Reply status body"
    and "respOk status"
    and "jsonParse rt body = Some json"
    and "getp json (ascii ''status'') = JStr (ascii ''success'')"
    and "getp json (ascii ''data'') = JArr nodes"
    and "nodes \<noteq> []"
  shows "fst (getNodesStatus rt net cfg nowUtc) =
           bindE (mapE (processNode rt nowUtc) nodes) (\<lambda>processed.
           bindE (mapE (renderNode rt) processed) (\<lambda>blocks.
           Inr (Text (joinWith (ascii ''\<newline>'') (msgNodesHeader # concat blocks)))))"
proof -
  have n: "\<not> nullish json" using assms(5) by (auto simp: nullish_def)
  have t: "truthy json" using assms(5) by (cases json) simp_all
  note f = fetchApi_ok [OF assms(1-4) n]
  show ?thesis
    using assms(7) t
    by (simp add: getNodesStatus_def f Let_def assms(5,6) orElse_def del: getp.simps)
qed

lemma getNodesStatus_text_blocks:
  assumes "getBaseUrl cfg \<noteq> []"
    and "httpGet net (getBaseUrl cfg @ ascii ''/api/nodes'') (buildHeaders cfg) = Reply status body"
    and "respOk status"
    and "jsonParse rt body = Some json"
    and "getp json (ascii ''status'') = JStr (ascii ''success'')"
    and "getp json (ascii ''data'') = JArr nodes"
    and "nodes \<noteq> []"
    and "fst (getNodesStatus rt net cfg nowUtc) = Inr (Text t)"
  shows "\<exists>ps blocks. t = joinWith (ascii ''\<newline>'') (msgNodesHeader # concat blocks)
           \<and> length blocks = length nodes
           \<and> (\<forall>i < length nodes. processNode rt nowUtc (nodes ! i) = Inr (ps ! i)
                                  \<and> renderNode rt (ps ! i) = Inr (blocks ! i))"
proof -
  note l = getNodesStatus_list [OF assms(1-7), of nowUtc]
  from assms(8) obtain ps where ps: "mapE (processNode rt nowUtc) nodes = Inr ps"
    unfolding l by (cases "mapE (processNode rt nowUtc) nodes") simp_all
  from assms(8) obtain blocks where b: "mapE (renderNode rt) ps = Inr blocks"
    by (cases "mapE (renderNode rt) ps") (simp_all add: l ps)
  have t: "t = joinWith (ascii ''\<newline>'') (msgNodesHeader # concat blocks)"
    using assms(8) by (simp add: l ps b)
  note p = mapE_Inr_nth [OF ps]
  note r = mapE_Inr_nth [OF b]
  show ?thesis using t p r by auto
qed

lemma renderNode_title:
  "renderNode rt n = Inr ls \<Longrightarrow>
   \<exists>regionS nameS rest. ls = [] # (pin @ statusIconOf n @ ascii '' '' @ regionS @ ascii '' '' @ nameS) # rest"
  unfolding renderNode_def Let_def bindE_def
  by (auto split: sum.splits)

subsection \<open>Nodes of the declared type\<close>

text \<open>
  For a node of the declared type every conversion succeeds, so its block can be written
  out: six lines and, when there is a timestamp to show, the update line.
\<close>

lemma komariNode_obj: "komariNode n \<Longrightarrow> \<exists>kvs. n = JObj kvs"
  by (cases n) (simp_all add: komariNode_def)

lemma komariNode_string:
  "komariNode n \<Longrightarrow> k \<in> set stringFields \<Longrightarrow> nullish (getp n k) \<or> isString (getp n k)"
  by (simp add: komariNode_def list_all_iff del: getp.simps)

lemma komariNode_number:
  "komariNode n \<Longrightarrow> k \<in> set numberFields \<Longrightarrow> nullish (getp n k) \<or> isNumber (getp n k)"
  by (simp add: komariNode_def list_all_iff del: getp.simps)

lemma text_of_string:
  "nullish v \<or> isString v \<Longrightarrow>
   toStringJ rt (coalesce v (JStr d)) = Inr (case v of JStr s \<Rightarrow> s | _ \<Rightarrow> d)"
  by (cases v) (auto simp: coalesce_def nullish_def isString_def)

lemma text_of_count:
  "nullish v \<or> isNumber v \<Longrightarrow>
   toStringJ rt (coalesce v (JNum 0)) = Inr (case v of JNum c \<Rightarrow> numberToString rt c | _ \<Rightarrow> ascii ''0'')"
  by (cases v) (auto simp: coalesce_def nullish_def isNumber_def numberToString_0)

lemma gb_of_bytes:
  "nullish v \<or> isNumber v \<Longrightarrow>
   toNumber rt (coalesce v (JNum 0)) = Inr (Fin (case v of JNum m \<Rightarrow> m | _ \<Rightarrow> 0))"
  by (cases v) (auto simp: coalesce_def nullish_def isNumber_def)

lemma gb_text:
  "toFixedNum rt 2 (divNum (divNum (divNum (Fin (case v of JNum m \<Rightarrow> m | _ \<Rightarrow> 0)) 1024) 1024) 1024) =
     (case v of JNum m \<Rightarrow> toFixed rt 2 (m / 1024 / 1024 / 1024) | _ \<Rightarrow> ascii ''0.00'')"
  by (cases v) (simp_all add: toFixed_2_zero)

lemma formatCn_not_Nil: "formatCn rt ms \<noteq> []"
  by (simp add: formatCn_def ascii_def split: option.split prod.split)

lemma updatedLine_some:
  assumes "nullish (getp n (ascii ''updated_at_cn'')) \<or> isString (getp n (ascii ''updated_at_cn''))"
    and "nullish (getp n (ascii ''updated_at'')) \<or> isString (getp n (ascii ''updated_at''))"
  shows "\<exists>upd. updatedLine rt n = Inr upd"
proof -
  define cn where "cn = getp n (ascii ''updated_at_cn'')"
  define u where "u = getp n (ascii ''updated_at'')"
  have "\<exists>v. updatedValue n = Inr v \<and> (nullish v \<or> isString v)"
    using assms unfolding updatedValue_def Let_def cn_def[symmetric] u_def[symmetric]
    by (cases cn; cases u) (auto simp: nullish_def isString_def)
  then obtain v where v: "updatedValue n = Inr v" "nullish v \<or> isString v" by blast
  show ?thesis
    using v(2) unfolding updatedLine_def v(1)
    by (cases v) (auto simp: nullish_def isString_def)
qed

lemma typed_block:
  assumes "komariNode n"
  shows "\<exists>n' upd. processNode rt nowUtc n = Inr n'
     \<and> renderNode rt n' =
         Inr ([[],
               pin @ (if (\<exists>u t. getp n (ascii ''updated_at'') = JStr u \<and> u \<noteq> [] \<and>
                             dateParse rt (isoOf u) = Some t \<and> nowUtc - t < 600000)
                      then iconOnline else iconOffline)
                 @ ascii '' '' @ (case getp n (ascii ''region'') of JStr s \<Rightarrow> s | _ \<Rightarrow> [])
                 @ ascii '' '' @ (case getp n (ascii ''name'') of JStr s \<Rightarrow> s | _ \<Rightarrow> msgUnknown),
               lblSystem @ (case getp n (ascii ''os'') of JStr s \<Rightarrow> s | _ \<Rightarrow> msgUnknown),
               ascii ''   CPU: '' @ (case getp n (ascii ''cpu_name'') of JStr s \<Rightarrow> s | _ \<Rightarrow> msgUnknown)
                 @ ascii '' ('' @ (case getp n (ascii ''cpu_cores'') of JNum c \<Rightarrow> numberToString rt c | _ \<Rightarrow> ascii ''0'')
                 @ ascii '' C)'',
               lblMemory @ (case getp n (ascii ''mem_total'') of
                              JNum m \<Rightarrow> toFixed rt 2 (m / 1024 / 1024 / 1024) | _ \<Rightarrow> ascii ''0.00'')
                 @ ascii '' GB'',
               lblDisk @ (case getp n (ascii ''disk_total'') of
                            JNum m \<Rightarrow> toFixed rt 2 (m / 1024 / 1024 / 1024) | _ \<Rightarrow> ascii ''0.00'')
                 @ ascii '' GB'']
              @ upd)
     \<and> (\<not> truthy (getp n (ascii ''updated_at'')) \<and> \<not> truthy (getp n (ascii ''updated_at_cn''))
          \<longrightarrow> upd = [])"
proof -
  obtain kvs where n: "n = JObj kvs" using komariNode_obj [OF assms] by blast
  define updated where "updated = getp n (ascii ''updated_at'')"
  define p where "p = (if truthy updated then freshness rt nowUtc n updated else (False, n))"
  define fresh where "fresh \<longleftrightarrow> (\<exists>u t. updated = JStr u \<and> u \<noteq> [] \<and>
                        dateParse rt (isoOf u) = Some t \<and> nowUtc - t < 600000)"
  have f: "fst p \<longleftrightarrow> fresh"
  proof (cases "truthy updated")
    case True
    then show ?thesis unfolding p_def fresh_def n by (simp add: fst_freshness)
  next
    case False
    then have "\<not> fresh" by (auto simp: fresh_def)
    with False show ?thesis by (simp add: p_def)
  qed
  have s: "snd p = n \<or> (\<exists>c. snd p = setp n (ascii ''updated_at_cn'') (JStr c))"
    unfolding p_def n by (auto simp: freshness_result split: js.split option.split)
  define n' where "n' = setp (snd p) (ascii ''is_online'') (JBool fresh)"
  have r: "processNode rt nowUtc n = Inr n'"
    unfolding n n'_def
    by (simp add: processNode_obj Let_def updated_def[symmetric, unfolded n] p_def[symmetric, unfolded n] f
          del: getp.simps setp.simps)
  have same: "getp n' k = getp n k" if "k \<noteq> ascii ''is_online''" "k \<noteq> ascii ''updated_at_cn''" for k
    using s that unfolding n'_def n by (auto simp: getp_update simp del: getp.simps)
  have online: "getp n' (ascii ''is_online'') = JBool fresh"
    using s unfolding n'_def n by (auto simp: getp_update simp del: getp.simps)
  have cn: "nullish (getp n' (ascii ''updated_at_cn'')) \<or> isString (getp n' (ascii ''updated_at_cn''))"
  proof -
    have "getp n' (ascii ''updated_at_cn'') = getp n (ascii ''updated_at_cn'')
          \<or> (\<exists>c. getp n' (ascii ''updated_at_cn'') = JStr c)"
      using s unfolding n'_def n by (auto simp: getp_update ascii_inject simp del: getp.simps)
    then show ?thesis
      using komariNode_string [OF assms, of "ascii ''updated_at_cn''"]
      by (auto simp: stringFields_def isString_def)
  qed
  have k: "getp n' (ascii ''name'') = getp n (ascii ''name'')"
    "getp n' (ascii ''os'') = getp n (ascii ''os'')"
    "getp n' (ascii ''cpu_name'') = getp n (ascii ''cpu_name'')"
    "getp n' (ascii ''cpu_cores'') = getp n (ascii ''cpu_cores'')"
    "getp n' (ascii ''region'') = getp n (ascii ''region'')"
    "getp n' (ascii ''mem_total'') = getp n (ascii ''mem_total'')"
    "getp n' (ascii ''disk_total'') = getp n (ascii ''disk_total'')"
    "getp n' (ascii ''updated_at'') = getp n (ascii ''updated_at'')"
    by (rule same; simp add: ascii_inject)+
  have ts: "\<And>k. k \<in> set stringFields \<Longrightarrow> nullish (getp n k) \<or> isString (getp n k)"
    by (rule komariNode_string [OF assms])
  have tn: "\<And>k. k \<in> set numberFields \<Longrightarrow> nullish (getp n k) \<or> isNumber (getp n k)"
    by (rule komariNode_number [OF assms])
  have u: "nullish (getp n' (ascii ''updated_at'')) \<or> isString (getp n' (ascii ''updated_at''))"
    unfolding k by (rule ts) (simp add: stringFields_def)
  obtain upd where upd: "updatedLine rt n' = Inr upd"
    using updatedLine_some [OF cn u] by blast
  have icon: "statusIconOf n' = (if fresh then iconOnline else iconOffline)"
    by (simp add: statusIconOf_def online del: getp.simps)
  have t1: "toStringJ rt (coalesce (getp n (ascii ''name'')) (JStr msgUnknown)) =
              Inr (case getp n (ascii ''name'') of JStr s \<Rightarrow> s | _ \<Rightarrow> msgUnknown)"
    by (rule text_of_string, rule ts) (simp add: stringFields_def)
  have t2: "toStringJ rt (coalesce (getp n (ascii ''os'')) (JStr msgUnknown)) =
              Inr (case getp n (ascii ''os'') of JStr s \<Rightarrow> s | _ \<Rightarrow> msgUnknown)"
    by (rule text_of_string, rule ts) (simp add: stringFields_def)
  have t3: "toStringJ rt (coalesce (getp n (ascii ''cpu_name'')) (JStr msgUnknown)) =
              Inr (case getp n (ascii ''cpu_name'') of JStr s \<Rightarrow> s | _ \<Rightarrow> msgUnknown)"
    by (rule text_of_string, rule ts) (simp add: stringFields_def)
  have t4: "toStringJ rt (coalesce (getp n (ascii ''region'')) (JStr [])) =
              Inr (case getp n (ascii ''region'') of JStr s \<Rightarrow> s | _ \<Rightarrow> [])"
    by (rule text_of_string, rule ts) (simp add: stringFields_def)
  have t5: "toStringJ rt (coalesce (getp n (ascii ''cpu_cores'')) (JNum 0)) =
              Inr (case getp n (ascii ''cpu_cores'') of JNum c \<Rightarrow> numberToString rt c | _ \<Rightarrow> ascii ''0'')"
    by (rule text_of_count, rule tn) (simp add: numberFields_def)
  have t6: "toNumber rt (coalesce (getp n (ascii ''mem_total'')) (JNum 0)) =
              Inr (Fin (case getp n (ascii ''mem_total'') of JNum m \<Rightarrow> m | _ \<Rightarrow> 0))"
    by (rule gb_of_bytes, rule tn) (simp add: numberFields_def)
  have t7: "toNumber rt (coalesce (getp n (ascii ''disk_total'')) (JNum 0)) =
              Inr (Fin (case getp n (ascii ''disk_total'') of JNum m \<Rightarrow> m | _ \<Rightarrow> 0))"
    by (rule gb_of_bytes, rule tn) (simp add: numberFields_def)
  have render: "renderNode rt n' =
         Inr ([[],
               pin @ (if fresh then iconOnline else iconOffline)
                 @ ascii '' '' @ (case getp n (ascii ''region'') of JStr s \<Rightarrow> s | _ \<Rightarrow> [])
                 @ ascii '' '' @ (case getp n (ascii ''name'') of JStr s \<Rightarrow> s | _ \<Rightarrow> msgUnknown),
               lblSystem @ (case getp n (ascii ''os'') of JStr s \<Rightarrow> s | _ \<Rightarrow> msgUnknown),
               ascii ''   CPU: '' @ (case getp n (ascii ''cpu_name'') of JStr s \<Rightarrow> s | _ \<Rightarrow> msgUnknown)
                 @ ascii '' ('' @ (case getp n (ascii ''cpu_cores'') of JNum c \<Rightarrow> numberToString rt c | _ \<Rightarrow> ascii ''0'')
                 @ ascii '' C)'',
               lblMemory @ (case getp n (ascii ''mem_total'') of
                              JNum m \<Rightarrow> toFixed rt 2 (m / 1024 / 1024 / 1024) | _ \<Rightarrow> ascii ''0.00'')
                 @ ascii '' GB'',
               lblDisk @ (case getp n (ascii ''disk_total'') of
                            JNum m \<Rightarrow> toFixed rt 2 (m / 1024 / 1024 / 1024) | _ \<Rightarrow> ascii ''0.00'')
                 @ ascii '' GB'']
              @ upd)"
    unfolding renderNode_def Let_def k t1 t2 t3 t4 t5 t6 t7 icon upd bindE_Inr gb_text
    by simp
  have none: "upd = []"
    if "\<not> truthy (getp n (ascii ''updated_at''))" "\<not> truthy (getp n (ascii ''updated_at_cn''))"
  proof -
    have "\<not> truthy updated" using that(1) by (simp add: updated_def)
    then have "snd p = n" by (simp add: p_def)
    then have "getp n' (ascii ''updated_at_cn'') = getp n (ascii ''updated_at_cn'')"
      unfolding n'_def n by (simp add: getp_update ascii_inject del: getp.simps)
    then have "updatedLine rt n' = Inr []"
      using that by (intro updatedLine_none) (simp_all add: k del: getp.simps)
    then show ?thesis using upd by simp
  qed
  show ?thesis
    using r render none unfolding fresh_def updated_def by blast
qed

lemma getNodesStatus_typed_blocks:
  assumes "getBaseUrl cfg \<noteq> []"
    and "httpGet net (getBaseUrl cfg @ ascii ''/api/nodes'') (buildHeaders cfg) = Reply status body"
    and "respOk status"
    and "jsonParse rt body = Some json"
    and "getp json (ascii ''status'') = JStr (ascii ''success'')"
    and "getp json (ascii ''data'') = JArr nodes"
    and "nodes \<noteq> []"
    and "list_all komariNode nodes"
  shows "\<exists>t. fst (getNodesStatus rt net cfg nowUtc) = Inr (Text t)"
proof -
  note l = getNodesStatus_list [OF assms(1-7), of nowUtc]
  have typed: "komariNode (nodes ! i)" if "i < length nodes" for i
    using assms(8) that by (simp add: list_all_length)
  have "\<exists>n'. processNode rt nowUtc (nodes ! i) = Inr n' \<and> (\<exists>b. renderNode rt n' = Inr b)"
    if "i < length nodes" for i
    using typed_block [OF typed [OF that], of rt nowUtc] by blast
  from mapE_nth [of nodes "processNode rt nowUtc" "\<lambda>i n'. \<exists>b. renderNode rt n' = Inr b", OF this]
  obtain ps where ps: "mapE (processNode rt nowUtc) nodes = Inr ps" "length ps = length nodes"
    "\<forall>i < length nodes. \<exists>b. renderNode rt (ps ! i) = Inr b"
    by blast
  have "\<exists>b. renderNode rt (ps ! i) = Inr b \<and> True" if "i < length ps" for i
    using ps(2,3) that by simp
  from mapE_nth [of ps "renderNode rt" "\<lambda>i b. True", OF this]
  obtain blocks where b: "mapE (renderNode rt) ps = Inr blocks" by blast
  show ?thesis by (simp add: l ps(1) b)
qed

lemma processNode_marks_online:
  "\<exists>n'. processNode rt nowUtc (JObj kvs) = Inr n'
     \<and> getp n' (ascii ''is_online'') =
           JBool (\<exists>u t. getp (JObj kvs) (ascii ''updated_at'') = JStr u \<and> u \<noteq> [] \<and>
                        dateParse rt (isoOf u) = Some t \<and> nowUtc - t < 600000)
     \<and> statusIconOf n' =
           (if (\<exists>u t. getp (JObj kvs) (ascii ''updated_at'') = JStr u \<and> u \<noteq> [] \<and>
                        dateParse rt (isoOf u) = Some t \<and> nowUtc - t < 600000)
            then iconOnline else iconOffline)"
proof -
  define updated where "updated = getp (JObj kvs) (ascii ''updated_at'')"
  define p where "p = (if truthy updated then freshness rt nowUtc (JObj kvs) updated else (False, JObj kvs))"
  define fresh where "fresh \<longleftrightarrow> (\<exists>u t. updated = JStr u \<and> u \<noteq> [] \<and>
                        dateParse rt (isoOf u) = Some t \<and> nowUtc - t < 600000)"
  have "\<exists>kvs'. snd p = JObj kvs'"
    using freshness_obj [of rt nowUtc kvs updated] by (cases "truthy updated") (simp_all add: p_def)
  then obtain kvs' where k: "snd p = JObj kvs'" by blast
  have f: "fst p \<longleftrightarrow> fresh"
  proof (cases "truthy updated")
    case True
    then show ?thesis by (simp add: p_def fresh_def fst_freshness)
  next
    case False
    then have "\<not> fresh" by (auto simp: fresh_def)
    with False show ?thesis by (simp add: p_def)
  qed
  have r: "processNode rt nowUtc (JObj kvs) = Inr (setp (JObj kvs') (ascii ''is_online'') (JBool fresh))"
    by (simp add: processNode_obj Let_def updated_def[symmetric] p_def[symmetric] k f
          del: getp.simps setp.simps)
  have g: "getp (setp (JObj kvs') (ascii ''is_online'') (JBool fresh)) (ascii ''is_online'') = JBool fresh"
    by (rule getp_setp_same)
  have i: "statusIconOf (setp (JObj kvs') (ascii ''is_online'') (JBool fresh)) =
             (if fresh then iconOnline else iconOffline)"
    by (simp add: statusIconOf_def g del: getp.simps setp.simps)
  show ?thesis
    using r g i unfolding fresh_def updated_def by blast
qed

lemma block_head:
  "r = Inr ((a # b # rest) @ upd) \<Longrightarrow> r = Inr blk \<Longrightarrow> \<exists>rest'. blk = a # b # rest'"
  by simp

lemma block_without_timestamp:
  assumes "\<not> truthy (getp (JObj kvs) (ascii ''updated_at''))"
    and "\<not> truthy (getp (JObj kvs) (ascii ''updated_at_cn''))"
  shows "\<exists>n'. processNode rt nowUtc (JObj kvs) = Inr n'
     \<and> updatedLine rt n' = Inr []
     \<and> (\<forall>ls. renderNode rt n' = Inr ls \<longrightarrow> length ls = 6)
     \<and> (nullish (getp (JObj kvs) (ascii ''name'')) \<and> nullish (getp (JObj kvs) (ascii ''os''))
        \<and> nullish (getp (JObj kvs) (ascii ''cpu_name'')) \<and> nullish (getp (JObj kvs) (ascii ''cpu_cores''))
        \<and> nullish (getp (JObj kvs) (ascii ''region'')) \<and> nullish (getp (JObj kvs) (ascii ''mem_total''))
        \<and> nullish (getp (JObj kvs) (ascii ''disk_total''))
        \<longrightarrow> renderNode rt n' =
              Inr [[],
                   pin @ iconOffline @ ascii ''  '' @ msgUnknown,
                   lblSystem @ msgUnknown,
                   ascii ''   CPU: '' @ msgUnknown @ ascii '' (0 C)'',
                   lblMemory @ ascii ''0.00 GB'',
                   lblDisk @ ascii ''0.00 GB''])"
proof -
  define n' where "n' = setp (JObj kvs) (ascii ''is_online'') (JBool False)"
  have p: "processNode rt nowUtc (JObj kvs) = Inr n'"
    unfolding n'_def by (rule processNode_no_timestamp [OF assms(1)])
  have same: "\<And>k. k \<noteq> ascii ''is_online'' \<Longrightarrow> getp n' k = getp (JObj kvs) k"
    unfolding n'_def by (rule getp_setp_other)
  have u: "updatedLine rt n' = Inr []"
    using assms by (intro updatedLine_none) (simp_all only: same key_is_online_neq not_False_eq_True)
  have l: "\<forall>ls. renderNode rt n' = Inr ls \<longrightarrow> length ls = 6"
    using renderNode_length [OF _ u] by simp
  have icon: "statusIconOf n' = iconOffline"
    by (simp add: statusIconOf_def n'_def getp_setp_same del: getp.simps setp.simps)
  have r: "renderNode rt n' =
              Inr [[],
                   pin @ iconOffline @ ascii ''  '' @ msgUnknown,
                   lblSystem @ msgUnknown,
                   ascii ''   CPU: '' @ msgUnknown @ ascii '' (0 C)'',
                   lblMemory @ ascii ''0.00 GB'',
                   lblDisk @ ascii ''0.00 GB'']"
    if "nullish (getp (JObj kvs) (ascii ''name''))" "nullish (getp (JObj kvs) (ascii ''os''))"
       "nullish (getp (JObj kvs) (ascii ''cpu_name''))" "nullish (getp (JObj kvs) (ascii ''cpu_cores''))"
       "nullish (getp (JObj kvs) (ascii ''region''))" "nullish (getp (JObj kvs) (ascii ''mem_total''))"
       "nullish (getp (JObj kvs) (ascii ''disk_total''))"
  proof -
    have "renderNode rt n' =
       bindE (updatedLine rt n') (\<lambda>updLine.
         Inr ([[],
             pin @ statusIconOf n' @ ascii ''  '' @ msgUnknown,
             lblSystem @ msgUnknown,
             ascii ''   CPU: '' @ msgUnknown @ ascii '' (0 C)'',
             lblMemory @ ascii ''0.00 GB'',
             lblDisk @ ascii ''0.00 GB'']
            @ updLine))"
      using that by (intro renderNode_placeholders) (simp_all only: same key_is_online_neq not_False_eq_True)
    then show ?thesis by (simp add: u icon)
  qed
  show ?thesis using p u l r by blast
qed

lemma block_exact:
  "r = Inr (six @ upd) \<Longrightarrow> r = Inr blk \<Longrightarrow> upd = [] \<Longrightarrow> blk = six"
  by simp

subsection \<open>A server with three nodes\<close>

text \<open>
  The first node was updated at 2024-01-01T00:00:00Z, the second has every displayed field
  and no timestamp, the third has an identifier only.
\<close>

lemma exServer_nodes:
  "httpGet (exServer nodesBody message) (getBaseUrl exConfig @ ascii ''/api/nodes'') (buildHeaders exConfig)
     = Reply 200 nodesBody"
  by (simp add: exServer_def exConfig_base ascii_append)

lemma exEngine_list: "jsonParse exEngine exListBody = Some exListJson"
  by (simp add: exEngine_def exJson_def)

lemma exListJson_fields:
  "getp exListJson (ascii ''status'') = JStr (ascii ''success'')"
  "getp exListJson (ascii ''data'') = JArr [exAlpha, exBeta, exGamma]"
  by (simp_all add: exListJson_def ascii_inject)

lemma exList_typed: "list_all komariNode [exAlpha, exBeta, exGamma]"
  by (simp add: komariNode_def exAlpha_def exBeta_def exGamma_def stringFields_def numberFields_def
        nullish_def isString_def isNumber_def ascii_inject)

lemma exEngine_date:
  "dateParse exEngine (isoOf (ascii ''2024-01-01T00:00:00Z'')) = Some 1704067200000"
  by (simp add: isoOf_example exEngine_def exRuntime_def)

lemma exAlpha_fields:
  "getp exAlpha (ascii ''updated_at'') = JStr (ascii ''2024-01-01T00:00:00Z'')"
  "getp exAlpha (ascii ''region'') = JUndefined"
  "getp exAlpha (ascii ''name'') = JStr (ascii ''alpha'')"
  by (simp_all add: exAlpha_def ascii_inject)

lemma exGamma_fields:
  "getp exGamma (ascii ''updated_at'') = JUndefined"
  "getp exGamma (ascii ''region'') = JUndefined"
  "getp exGamma (ascii ''name'') = JUndefined"
  by (simp_all add: exGamma_def ascii_inject)

lemma exBeta_fields:
  "getp exBeta (ascii ''updated_at'') = JUndefined"
  "getp exBeta (ascii ''region'') = JStr (ascii ''CN'')"
  "getp exBeta (ascii ''name'') = JStr (ascii ''beta'')"
  by (simp_all add: exBeta_def ascii_inject)

lemma numberToString_4: "numberToString rt 4 = ascii ''4''"
  by (simp add: numberToString_def decimal_digit) (simp add: digitUnit_def ascii_def)

lemma toFixed_2_one: "toFixed rt 2 1 = ascii ''1.00''"
proof -
  have "toFixedDigits 2 1 = decimal 1 @ ascii ''.'' @ [digitUnit 0, digitUnit 0]"
    by (rule hundredths_text[where n = 100]) (simp_all add: floor_rat_numeral_div)
  then show ?thesis
    by (simp add: toFixed_small decimal_1) (simp add: digitUnit_def ascii_def)
qed

lemma toFixed_2_two: "toFixed rt 2 2 = ascii ''2.00''"
proof -
  have "toFixedDigits 2 2 = decimal 2 @ ascii ''.'' @ [digitUnit 0, digitUnit 0]"
    by (rule hundredths_text[where n = 200]) (simp_all add: floor_rat_numeral_div)
  then show ?thesis
    by (simp add: toFixed_small decimal_2) (simp add: digitUnit_def ascii_def)
qed

lemma exBeta_shown:
  "getp exBeta (ascii ''updated_at_cn'') = JUndefined"
  "getp exBeta (ascii ''os'') = JStr (ascii ''linux'')"
  "getp exBeta (ascii ''cpu_name'') = JStr (ascii ''EPYC'')"
  "getp exBeta (ascii ''cpu_cores'') = JNum 4"
  "getp exBeta (ascii ''mem_total'') = JNum 1073741824"
  "getp exBeta (ascii ''disk_total'') = JNum 2147483648"
  by (simp_all add: exBeta_def ascii_inject)

lemma exGamma_shown:
  "getp exGamma (ascii ''updated_at_cn'') = JUndefined"
  "getp exGamma (ascii ''os'') = JUndefined"
  "getp exGamma (ascii ''cpu_name'') = JUndefined"
  "getp exGamma (ascii ''cpu_cores'') = JUndefined"
  "getp exGamma (ascii ''mem_total'') = JUndefined"
  "getp exGamma (ascii ''disk_total'') = JUndefined"
  by (simp_all add: exGamma_def ascii_inject)

lemma formatCn_example: "formatCn exEngine 1704096000000 = ascii ''2024-01-01 08:00:00''"
proof -
  have d: "decimal 2024 = ascii ''2024''" "decimal 1 = ascii ''1''" "decimal 8 = ascii ''8''" "decimal 0 = ascii ''0''"
    by (simp_all add: decimal.simps digitUnit_def ascii_def)
  have u: "utcFields exEngine 1704096000000 = Some (2024, 0, 1, 8, 0, 0)"
    by (simp add: exEngine_def exRuntime_def)
  show ?thesis
    by (simp add: formatCn_def u intText_def d decimal_1 padStart2_def) (simp add: ascii_def)
qed

lemma exAlpha_processed:
  "processNode exEngine 1704067799999 exAlpha =
     Inr (JObj [(ascii ''name'', JStr (ascii ''alpha'')),
                (ascii ''updated_at'', JStr (ascii ''2024-01-01T00:00:00Z'')),
                (ascii ''updated_at_cn'', JStr (ascii ''2024-01-01 08:00:00'')),
                (ascii ''is_online'', JBool True)])"
proof -
  have z: "ascii ''2024-01-01T00:00:00Z'' \<noteq> []" by (simp add: ascii_def)
  have t: "(1704067200000::int) + tzOffsetMs = 1704096000000" by (simp add: tzOffsetMs_def)
  show ?thesis
    unfolding exAlpha_def processNode_obj Let_def
    by (simp add: z freshness_result exEngine_date t formatCn_example ascii_inject)
qed

lemma exAlpha_rendered:
  "renderNode exEngine
     (JObj [(ascii ''name'', JStr (ascii ''alpha'')),
            (ascii ''updated_at'', JStr (ascii ''2024-01-01T00:00:00Z'')),
            (ascii ''updated_at_cn'', JStr (ascii ''2024-01-01 08:00:00'')),
            (ascii ''is_online'', JBool True)]) =
     Inr [[], pin @ iconOnline @ ascii ''  alpha'', lblSystem @ msgUnknown,
          ascii ''   CPU: '' @ msgUnknown @ ascii '' (0 C)'', lblMemory @ ascii ''0.00 GB'',
          lblDisk @ ascii ''0.00 GB'', lblUpdated @ ascii ''2024-01-01 08:00:00'']"
proof -
  have c: "ascii ''2024-01-01 08:00:00'' \<noteq> []" by (simp add: ascii_def)
  show ?thesis
    unfolding renderNode_def Let_def
    by (simp add: c ascii_inject coalesce_def nullish_def statusIconOf_def updatedLine_def updatedValue_def
          toFixed_2_zero numberToString_0 ascii_append ascii_append2)
qed

lemma exBeta_processed:
  "processNode exEngine nowUtc exBeta =
     Inr (JObj [(ascii ''name'', JStr (ascii ''beta'')), (ascii ''region'', JStr (ascii ''CN'')),
                (ascii ''os'', JStr (ascii ''linux'')), (ascii ''cpu_name'', JStr (ascii ''EPYC'')),
                (ascii ''cpu_cores'', JNum 4), (ascii ''mem_total'', JNum 1073741824),
                (ascii ''disk_total'', JNum 2147483648), (ascii ''is_online'', JBool False)])"
  unfolding exBeta_def processNode_obj Let_def
  by (simp add: ascii_inject)

lemma exBeta_rendered:
  "renderNode exEngine
     (JObj [(ascii ''name'', JStr (ascii ''beta'')), (ascii ''region'', JStr (ascii ''CN'')),
            (ascii ''os'', JStr (ascii ''linux'')), (ascii ''cpu_name'', JStr (ascii ''EPYC'')),
            (ascii ''cpu_cores'', JNum 4), (ascii ''mem_total'', JNum 1073741824),
            (ascii ''disk_total'', JNum 2147483648), (ascii ''is_online'', JBool False)]) =
     Inr [[], pin @ iconOffline @ ascii '' CN beta'', lblSystem @ ascii ''linux'',
          ascii ''   CPU: EPYC (4 C)'', lblMemory @ ascii ''1.00 GB'', lblDisk @ ascii ''2.00 GB'']"
  unfolding renderNode_def Let_def
  by (simp add: ascii_inject coalesce_def nullish_def statusIconOf_def updatedLine_def updatedValue_def
        toFixed_2_one toFixed_2_two numberToString_4 ascii_append ascii_append2)

lemma exGamma_processed:
  "processNode exEngine nowUtc exGamma =
     Inr (JObj [(ascii ''uuid'', JStr (ascii ''u3'')), (ascii ''is_online'', JBool False)])"
  unfolding exGamma_def processNode_obj Let_def
  by (simp add: ascii_inject)

lemma exGamma_rendered:
  "renderNode exEngine (JObj [(ascii ''uuid'', JStr (ascii ''u3'')), (ascii ''is_online'', JBool False)]) =
     Inr [[], pin @ iconOffline @ ascii ''  '' @ msgUnknown, lblSystem @ msgUnknown,
          ascii ''   CPU: '' @ msgUnknown @ ascii '' (0 C)'', lblMemory @ ascii ''0.00 GB'',
          lblDisk @ ascii ''0.00 GB'']"
  unfolding renderNode_def Let_def
  by (simp add: ascii_inject coalesce_def nullish_def statusIconOf_def updatedLine_def updatedValue_def
        toFixed_2_zero numberToString_0 ascii_append ascii_append2)

lemma exList_report:
  "fst (getNodesStatus exEngine (exServer exListBody message) exConfig 1704067799999) =
     Inr (Text (joinWith (ascii ''\<newline>'')
       [msgNodesHeader,
        [], pin @ iconOnline @ ascii ''  alpha'', lblSystem @ msgUnknown,
        ascii ''   CPU: '' @ msgUnknown @ ascii '' (0 C)'', lblMemory @ ascii ''0.00 GB'',
        lblDisk @ ascii ''0.00 GB'', lblUpdated @ ascii ''2024-01-01 08:00:00'',
        [], pin @ iconOffline @ ascii '' CN beta'', lblSystem @ ascii ''linux'',
        ascii ''   CPU: EPYC (4 C)'', lblMemory @ ascii ''1.00 GB'', lblDisk @ ascii ''2.00 GB'',
        [], pin @ iconOffline @ ascii ''  '' @ msgUnknown, lblSystem @ msgUnknown,
        ascii ''   CPU: '' @ msgUnknown @ ascii '' (0 C)'', lblMemory @ ascii ''0.00 GB'',
        lblDisk @ ascii ''0.00 GB'']))"
proof -
  have ne: "[exAlpha, exBeta, exGamma] \<noteq> []" by simp
  show ?thesis
    unfolding getNodesStatus_list
      [OF exConfig_base_not_Nil exServer_nodes respOk_200 exEngine_list exListJson_fields ne]
    by (simp add: exAlpha_processed exBeta_processed exGamma_processed
          exAlpha_rendered exBeta_rendered exGamma_rendered del: joinWith.simps)
qed

subsection \<open>Online and offline\<close>

text \<open>
  Claim C2. \<open>getNodesStatus\<close> shows a node online exactly when its \<open>updated_at\<close> is a
  non-empty string that \<open>Date.parse\<close> reads (a final \<open>Z\<close> spelled \<open>+00:00\<close>) as a time \<open>t\<close>
  with \<open>now - t\<close> below 600 seconds, that is below 600000 ms. For a reply of
  \<open>/api/nodes\<close> with a status from 200 to 299, \<open>status\<close> \<open>success\<close> and a node list that is
  not empty:

  \<^item> when the nodes have the declared type, the result is a report with one block for each
    node, in the order of the list, and the title line of each block is the pin, the
    green icon when the node is online by that rule and the red icon otherwise, the
    region and the name;

  \<^item> for any list, when a report is produced, it has one block for each node, and the
    block of each node that is an object carries the icon by the same rule.

  The callback of \<open>nodes.map\<close> sets \<open>is_online\<close> of every object to that same truth value.
  At a difference of exactly 600 seconds the inequality fails and the node is offline,
  and so it is when \<open>updated_at\<close> is absent, empty, not a string or not a date. The two
  icons are different strings.
\<close>

theorem online_iff_updated_within_600s:
  assumes "getBaseUrl cfg \<noteq> []"
    and "httpGet net (getBaseUrl cfg @ ascii ''/api/nodes'') (buildHeaders cfg) = Reply status body"
    and "respOk status"
    and "jsonParse rt body = Some json"
    and "getp json (ascii ''status'') = JStr (ascii ''success'')"
    and "getp json (ascii ''data'') = JArr nodes"
    and "nodes \<noteq> []"
  shows "(list_all komariNode nodes \<longrightarrow>
            (\<exists>blocks.
                fst (getNodesStatus rt net cfg nowUtc) =
                  Inr (Text (joinWith (ascii ''\<newline>'') (msgNodesHeader # concat blocks)))
              \<and> length blocks = length nodes
              \<and> (\<forall>i < length nodes. \<exists>rest.
                    blocks ! i =
                      [] # (pin @ (if (\<exists>u t. getp (nodes ! i) (ascii ''updated_at'') = JStr u \<and> u \<noteq> [] \<and>
                                        dateParse rt (isoOf u) = Some t \<and> nowUtc - t < 600000)
                                   then iconOnline else iconOffline)
                              @ ascii '' '' @ (case getp (nodes ! i) (ascii ''region'') of JStr s \<Rightarrow> s | _ \<Rightarrow> [])
                              @ ascii '' '' @ (case getp (nodes ! i) (ascii ''name'') of JStr s \<Rightarrow> s | _ \<Rightarrow> msgUnknown))
                         # rest)))
       \<and> (\<forall>t. fst (getNodesStatus rt net cfg nowUtc) = Inr (Text t) \<longrightarrow>
            (\<exists>blocks.
                t = joinWith (ascii ''\<newline>'') (msgNodesHeader # concat blocks)
              \<and> length blocks = length nodes
              \<and> (\<forall>i < length nodes. \<forall>kvs. nodes ! i = JObj kvs \<longrightarrow>
                    (\<exists>regionS nameS rest.
                       blocks ! i =
                         [] # (pin @ (if (\<exists>u t. getp (nodes ! i) (ascii ''updated_at'') = JStr u \<and> u \<noteq> [] \<and>
                                           dateParse rt (isoOf u) = Some t \<and> nowUtc - t < 600000)
                                      then iconOnline else iconOffline)
                                 @ ascii '' '' @ regionS @ ascii '' '' @ nameS)
                            # rest))))
       \<and> (\<exists>n'. processNode rt nowUtc (JObj kvs) = Inr n'
             \<and> getp n' (ascii ''is_online'') =
                 JBool (\<exists>u t. getp (JObj kvs) (ascii ''updated_at'') = JStr u \<and> u \<noteq> [] \<and>
                              dateParse rt (isoOf u) = Some t \<and> nowUtc - t < 600000)
             \<and> statusIconOf n' =
                 (if (\<exists>u t. getp (JObj kvs) (ascii ''updated_at'') = JStr u \<and> u \<noteq> [] \<and>
                            dateParse rt (isoOf u) = Some t \<and> nowUtc - t < 600000)
                  then iconOnline else iconOffline))
       \<and> iconOnline \<noteq> iconOffline"
proof -
  have A: "\<exists>blocks.
                fst (getNodesStatus rt net cfg nowUtc) =
                  Inr (Text (joinWith (ascii ''\<newline>'') (msgNodesHeader # concat blocks)))
              \<and> length blocks = length nodes
              \<and> (\<forall>i < length nodes. \<exists>rest.
                    blocks ! i =
                      [] # (pin @ (if (\<exists>u t. getp (nodes ! i) (ascii ''updated_at'') = JStr u \<and> u \<noteq> [] \<and>
                                        dateParse rt (isoOf u) = Some t \<and> nowUtc - t < 600000)
                                   then iconOnline else iconOffline)
                              @ ascii '' '' @ (case getp (nodes ! i) (ascii ''region'') of JStr s \<Rightarrow> s | _ \<Rightarrow> [])
                              @ ascii '' '' @ (case getp (nodes ! i) (ascii ''name'') of JStr s \<Rightarrow> s | _ \<Rightarrow> msgUnknown))
                         # rest)"
    if typed: "list_all komariNode nodes"
  proof -
    obtain t where t: "fst (getNodesStatus rt net cfg nowUtc) = Inr (Text t)"
      using getNodesStatus_typed_blocks [OF assms typed] by blast
    obtain ps blocks where b: "t = joinWith (ascii ''\<newline>'') (msgNodesHeader # concat blocks)"
      "length blocks = length nodes"
      "\<forall>i < length nodes. processNode rt nowUtc (nodes ! i) = Inr (ps ! i)
                                  \<and> renderNode rt (ps ! i) = Inr (blocks ! i)"
      using getNodesStatus_text_blocks [OF assms t] by blast
    have "\<exists>rest. blocks ! i =
                      [] # (pin @ (if (\<exists>u t. getp (nodes ! i) (ascii ''updated_at'') = JStr u \<and> u \<noteq> [] \<and>
                                        dateParse rt (isoOf u) = Some t \<and> nowUtc - t < 600000)
                                   then iconOnline else iconOffline)
                              @ ascii '' '' @ (case getp (nodes ! i) (ascii ''region'') of JStr s \<Rightarrow> s | _ \<Rightarrow> [])
                              @ ascii '' '' @ (case getp (nodes ! i) (ascii ''name'') of JStr s \<Rightarrow> s | _ \<Rightarrow> msgUnknown))
                         # rest"
      if i: "i < length nodes" for i
    proof -
      have k: "komariNode (nodes ! i)" using typed i by (simp add: list_all_length)
      from typed_block [OF k, of rt nowUtc] obtain n' upd where
        n': "processNode rt nowUtc (nodes ! i) = Inr n'" and
        r: "renderNode rt n' = Inr ([[],
               pin @ (if (\<exists>u t. getp (nodes ! i) (ascii ''updated_at'') = JStr u \<and> u \<noteq> [] \<and>
                             dateParse rt (isoOf u) = Some t \<and> nowUtc - t < 600000)
                      then iconOnline else iconOffline)
                 @ ascii '' '' @ (case getp (nodes ! i) (ascii ''region'') of JStr s \<Rightarrow> s | _ \<Rightarrow> [])
                 @ ascii '' '' @ (case getp (nodes ! i) (ascii ''name'') of JStr s \<Rightarrow> s | _ \<Rightarrow> msgUnknown),
               lblSystem @ (case getp (nodes ! i) (ascii ''os'') of JStr s \<Rightarrow> s | _ \<Rightarrow> msgUnknown),
               ascii ''   CPU: '' @ (case getp (nodes ! i) (ascii ''cpu_name'') of JStr s \<Rightarrow> s | _ \<Rightarrow> msgUnknown)
                 @ ascii '' ('' @ (case getp (nodes ! i) (ascii ''cpu_cores'') of JNum c \<Rightarrow> numberToString rt c | _ \<Rightarrow> ascii ''0'')
                 @ ascii '' C)'',
               lblMemory @ (case getp (nodes ! i) (ascii ''mem_total'') of
                              JNum m \<Rightarrow> toFixed rt 2 (m / 1024 / 1024 / 1024) | _ \<Rightarrow> ascii ''0.00'')
                 @ ascii '' GB'',
               lblDisk @ (case getp (nodes ! i) (ascii ''disk_total'') of
                            JNum m \<Rightarrow> toFixed rt 2 (m / 1024 / 1024 / 1024) | _ \<Rightarrow> ascii ''0.00'')
                 @ ascii '' GB'']
              @ upd)"
        by blast
      have "ps ! i = n'" using b(3) i n' by auto
      then have "renderNode rt n' = Inr (blocks ! i)" using b(3) i by auto
      then show ?thesis by (rule block_head [OF r])
    qed
    then show ?thesis using t b(1,2) by blast
  qed
  have B: "\<exists>blocks.
                t = joinWith (ascii ''\<newline>'') (msgNodesHeader # concat blocks)
              \<and> length blocks = length nodes
              \<and> (\<forall>i < length nodes. \<forall>kvs. nodes ! i = JObj kvs \<longrightarrow>
                    (\<exists>regionS nameS rest.
                       blocks ! i =
                         [] # (pin @ (if (\<exists>u t. getp (nodes ! i) (ascii ''updated_at'') = JStr u \<and> u \<noteq> [] \<and>
                                           dateParse rt (isoOf u) = Some t \<and> nowUtc - t < 600000)
                                      then iconOnline else iconOffline)
                                 @ ascii '' '' @ regionS @ ascii '' '' @ nameS)
                            # rest))"
    if t: "fst (getNodesStatus rt net cfg nowUtc) = Inr (Text t)" for t
  proof -
    obtain ps blocks where b: "t = joinWith (ascii ''\<newline>'') (msgNodesHeader # concat blocks)"
      "length blocks = length nodes"
      "\<forall>i < length nodes. processNode rt nowUtc (nodes ! i) = Inr (ps ! i)
                                  \<and> renderNode rt (ps ! i) = Inr (blocks ! i)"
      using getNodesStatus_text_blocks [OF assms t] by blast
    have "\<exists>regionS nameS rest.
                       blocks ! i =
                         [] # (pin @ (if (\<exists>u t. getp (nodes ! i) (ascii ''updated_at'') = JStr u \<and> u \<noteq> [] \<and>
                                           dateParse rt (isoOf u) = Some t \<and> nowUtc - t < 600000)
                                      then iconOnline else iconOffline)
                                 @ ascii '' '' @ regionS @ ascii '' '' @ nameS)
                            # rest"
      if i: "i < length nodes" and o: "nodes ! i = JObj kvs" for i kvs
    proof -
      from processNode_marks_online [of rt nowUtc kvs] obtain n' where
        n': "processNode rt nowUtc (JObj kvs) = Inr n'" and
        ic: "statusIconOf n' =
           (if (\<exists>u t. getp (JObj kvs) (ascii ''updated_at'') = JStr u \<and> u \<noteq> [] \<and>
                        dateParse rt (isoOf u) = Some t \<and> nowUtc - t < 600000)
            then iconOnline else iconOffline)"
        by blast
      have "ps ! i = n'" using b(3) i n' o by auto
      then have "renderNode rt n' = Inr (blocks ! i)" using b(3) i by auto
      from renderNode_title [OF this] show ?thesis unfolding ic o by blast
    qed
    then show ?thesis using b(1,2) by blast
  qed
  show ?thesis
    using A B processNode_marks_online [of rt nowUtc kvs] icons_differ by blast
qed

theorem online_iff_updated_within_600s_witness:
  "(\<exists>blocks.
      fst (getNodesStatus exEngine (exServer exListBody []) exConfig 1704067799999) =
        Inr (Text (joinWith (ascii ''\<newline>'') (msgNodesHeader # concat blocks)))
    \<and> length blocks = 3
    \<and> (\<exists>rest. blocks ! 0 = [] # (pin @ iconOnline @ ascii ''  alpha'') # rest)
    \<and> (\<exists>rest. blocks ! 1 = [] # (pin @ iconOffline @ ascii '' CN beta'') # rest)
    \<and> (\<exists>rest. blocks ! 2 = [] # (pin @ iconOffline @ ascii ''  '' @ msgUnknown) # rest))
   \<and> (\<exists>blocks.
      fst (getNodesStatus exEngine (exServer exListBody []) exConfig 1704067800000) =
        Inr (Text (joinWith (ascii ''\<newline>'') (msgNodesHeader # concat blocks)))
    \<and> length blocks = 3
    \<and> (\<exists>rest. blocks ! 0 = [] # (pin @ iconOffline @ ascii ''  alpha'') # rest)
    \<and> (\<exists>rest. blocks ! 1 = [] # (pin @ iconOffline @ ascii '' CN beta'') # rest)
    \<and> (\<exists>rest. blocks ! 2 = [] # (pin @ iconOffline @ ascii ''  '' @ msgUnknown) # rest))
   \<and> fst (getNodesStatus exEngine (exServer exListBody []) exConfig 1704067799999) =
       Inr (Text (joinWith (ascii ''\<newline>'')
         [msgNodesHeader,
          [], pin @ iconOnline @ ascii ''  alpha'', lblSystem @ msgUnknown,
          ascii ''   CPU: '' @ msgUnknown @ ascii '' (0 C)'', lblMemory @ ascii ''0.00 GB'',
          lblDisk @ ascii ''0.00 GB'', lblUpdated @ ascii ''2024-01-01 08:00:00'',
          [], pin @ iconOffline @ ascii '' CN beta'', lblSystem @ ascii ''linux'',
          ascii ''   CPU: EPYC (4 C)'', lblMemory @ ascii ''1.00 GB'', lblDisk @ ascii ''2.00 GB'',
          [], pin @ iconOffline @ ascii ''  '' @ msgUnknown, lblSystem @ msgUnknown,
          ascii ''   CPU: '' @ msgUnknown @ ascii '' (0 C)'', lblMemory @ ascii ''0.00 GB'',
          lblDisk @ ascii ''0.00 GB'']))"
proof -
  note t = online_iff_updated_within_600s
    [OF exConfig_base_not_Nil exServer_nodes respOk_200 exEngine_list exListJson_fields, THEN conjunct1, rule_format, OF _ exList_typed]
  have ne: "[exAlpha, exBeta, exGamma] \<noteq> []" by simp
  have z: "ascii ''2024-01-01T00:00:00Z'' \<noteq> []" by (simp add: ascii_def)
  have a: "\<exists>blocks.
      fst (getNodesStatus exEngine (exServer exListBody []) exConfig 1704067799999) =
        Inr (Text (joinWith (ascii ''\<newline>'') (msgNodesHeader # concat blocks)))
    \<and> length blocks = 3
    \<and> (\<exists>rest. blocks ! 0 = [] # (pin @ iconOnline @ ascii ''  alpha'') # rest)
    \<and> (\<exists>rest. blocks ! 1 = [] # (pin @ iconOffline @ ascii '' CN beta'') # rest)
    \<and> (\<exists>rest. blocks ! 2 = [] # (pin @ iconOffline @ ascii ''  '' @ msgUnknown) # rest)"
    using t [OF ne, of "[]" 1704067799999]
    by (simp add: all_below_three exAlpha_fields exBeta_fields exGamma_fields z exEngine_date ascii_append ascii_append2 del: getp.simps)
       (simp add: numeral_3_eq_3 numeral_2_eq_2)
  have b: "\<exists>blocks.
      fst (getNodesStatus exEngine (exServer exListBody []) exConfig 1704067800000) =
        Inr (Text (joinWith (ascii ''\<newline>'') (msgNodesHeader # concat blocks)))
    \<and> length blocks = 3
    \<and> (\<exists>rest. blocks ! 0 = [] # (pin @ iconOffline @ ascii ''  alpha'') # rest)
    \<and> (\<exists>rest. blocks ! 1 = [] # (pin @ iconOffline @ ascii '' CN beta'') # rest)
    \<and> (\<exists>rest. blocks ! 2 = [] # (pin @ iconOffline @ ascii ''  '' @ msgUnknown) # rest)"
    using t [OF ne, of "[]" 1704067800000]
    by (simp add: all_below_three exAlpha_fields exBeta_fields exGamma_fields z exEngine_date ascii_append ascii_append2 del: getp.simps)
       (simp add: numeral_3_eq_3 numeral_2_eq_2)
  show ?thesis using a b exList_report [of "[]"] by blast
qed

subsection \<open>The update line\<close>

text \<open>
  Claim C9, as the code has it. Take a reply of \<open>/api/nodes\<close> with a status from 200 to
  299, \<open>status\<close> \<open>success\<close> and a node list that is not empty, and in it a node whose
  \<open>updated_at\<close> is absent (or falsy) and which carries no truthy \<open>updated_at_cn\<close> of its
  own.

  \<^item> When the nodes have the declared type, \<open>getNodesStatus\<close> returns a report with one
    block for each node, and the block of that node is exactly six lines: the empty
    line, the title with the red icon, region and name, and the lines of system, CPU,
    memory and disk; there is no update line. A field that is missing or \<open>null\<close> shows
    its placeholder: "unknown" for name, system and CPU, \<open>0\<close> for the cores, \<open>0.00\<close> for
    memory and disk, nothing for the region.

  \<^item> For any list, when a report is produced, the block of such a node that is an object
    has six lines.

  The last part is the same fact about one node on its own, as the callback and the
  loop body handle it.
\<close>

theorem no_update_line_without_timestamp:
  assumes "getBaseUrl cfg \<noteq> []"
    and "httpGet net (getBaseUrl cfg @ ascii ''/api/nodes'') (buildHeaders cfg) = Reply status body"
    and "respOk status"
    and "jsonParse rt body = Some json"
    and "getp json (ascii ''status'') = JStr (ascii ''success'')"
    and "getp json (ascii ''data'') = JArr nodes"
    and "nodes \<noteq> []"
  shows "(list_all komariNode nodes \<longrightarrow>
            (\<exists>blocks.
                fst (getNodesStatus rt net cfg nowUtc) =
                  Inr (Text (joinWith (ascii ''\<newline>'') (msgNodesHeader # concat blocks)))
              \<and> length blocks = length nodes
              \<and> (\<forall>i < length nodes.
                    \<not> truthy (getp (nodes ! i) (ascii ''updated_at''))
                    \<and> \<not> truthy (getp (nodes ! i) (ascii ''updated_at_cn'')) \<longrightarrow>
                    blocks ! i =
                      [[],
                       pin @ iconOffline
                         @ ascii '' '' @ (case getp (nodes ! i) (ascii ''region'') of JStr s \<Rightarrow> s | _ \<Rightarrow> [])
                         @ ascii '' '' @ (case getp (nodes ! i) (ascii ''name'') of JStr s \<Rightarrow> s | _ \<Rightarrow> msgUnknown),
                       lblSystem @ (case getp (nodes ! i) (ascii ''os'') of JStr s \<Rightarrow> s | _ \<Rightarrow> msgUnknown),
                       ascii ''   CPU: ''
                         @ (case getp (nodes ! i) (ascii ''cpu_name'') of JStr s \<Rightarrow> s | _ \<Rightarrow> msgUnknown)
                         @ ascii '' (''
                         @ (case getp (nodes ! i) (ascii ''cpu_cores'') of
                              JNum c \<Rightarrow> numberToString rt c | _ \<Rightarrow> ascii ''0'')
                         @ ascii '' C)'',
                       lblMemory @ (case getp (nodes ! i) (ascii ''mem_total'') of
                                      JNum m \<Rightarrow> toFixed rt 2 (m / 1024 / 1024 / 1024) | _ \<Rightarrow> ascii ''0.00'')
                         @ ascii '' GB'',
                       lblDisk @ (case getp (nodes ! i) (ascii ''disk_total'') of
                                    JNum m \<Rightarrow> toFixed rt 2 (m / 1024 / 1024 / 1024) | _ \<Rightarrow> ascii ''0.00'')
                         @ ascii '' GB''])))
       \<and> (\<forall>t. fst (getNodesStatus rt net cfg nowUtc) = Inr (Text t) \<longrightarrow>
            (\<exists>blocks.
                t = joinWith (ascii ''\<newline>'') (msgNodesHeader # concat blocks)
              \<and> length blocks = length nodes
              \<and> (\<forall>i < length nodes. \<forall>kvs.
                    nodes ! i = JObj kvs
                    \<and> \<not> truthy (getp (JObj kvs) (ascii ''updated_at''))
                    \<and> \<not> truthy (getp (JObj kvs) (ascii ''updated_at_cn'')) \<longrightarrow>
                    length (blocks ! i) = 6)))
       \<and> (\<not> truthy (getp (JObj kvs) (ascii ''updated_at''))
           \<and> \<not> truthy (getp (JObj kvs) (ascii ''updated_at_cn'')) \<longrightarrow>
           (\<exists>n'. processNode rt nowUtc (JObj kvs) = Inr n'
              \<and> updatedLine rt n' = Inr []
              \<and> (\<forall>ls. renderNode rt n' = Inr ls \<longrightarrow> length ls = 6)
              \<and> (nullish (getp (JObj kvs) (ascii ''name'')) \<and> nullish (getp (JObj kvs) (ascii ''os''))
                 \<and> nullish (getp (JObj kvs) (ascii ''cpu_name'')) \<and> nullish (getp (JObj kvs) (ascii ''cpu_cores''))
                 \<and> nullish (getp (JObj kvs) (ascii ''region'')) \<and> nullish (getp (JObj kvs) (ascii ''mem_total''))
                 \<and> nullish (getp (JObj kvs) (ascii ''disk_total''))
                 \<longrightarrow> renderNode rt n' =
                       Inr [[],
                            pin @ iconOffline @ ascii ''  '' @ msgUnknown,
                            lblSystem @ msgUnknown,
                            ascii ''   CPU: '' @ msgUnknown @ ascii '' (0 C)'',
                            lblMemory @ ascii ''0.00 GB'',
                            lblDisk @ ascii ''0.00 GB''])))"
proof -
  have A: "\<exists>blocks.
                fst (getNodesStatus rt net cfg nowUtc) =
                  Inr (Text (joinWith (ascii ''\<newline>'') (msgNodesHeader # concat blocks)))
              \<and> length blocks = length nodes
              \<and> (\<forall>i < length nodes.
                    \<not> truthy (getp (nodes ! i) (ascii ''updated_at''))
                    \<and> \<not> truthy (getp (nodes ! i) (ascii ''updated_at_cn'')) \<longrightarrow>
                    blocks ! i =
                      [[],
                       pin @ iconOffline
                         @ ascii '' '' @ (case getp (nodes ! i) (ascii ''region'') of JStr s \<Rightarrow> s | _ \<Rightarrow> [])
                         @ ascii '' '' @ (case getp (nodes ! i) (ascii ''name'') of JStr s \<Rightarrow> s | _ \<Rightarrow> msgUnknown),
                       lblSystem @ (case getp (nodes ! i) (ascii ''os'') of JStr s \<Rightarrow> s | _ \<Rightarrow> msgUnknown),
                       ascii ''   CPU: ''
                         @ (case getp (nodes ! i) (ascii ''cpu_name'') of JStr s \<Rightarrow> s | _ \<Rightarrow> msgUnknown)
                         @ ascii '' (''
                         @ (case getp (nodes ! i) (ascii ''cpu_cores'') of
                              JNum c \<Rightarrow> numberToString rt c | _ \<Rightarrow> ascii ''0'')
                         @ ascii '' C)'',
                       lblMemory @ (case getp (nodes ! i) (ascii ''mem_total'') of
                                      JNum m \<Rightarrow> toFixed rt 2 (m / 1024 / 1024 / 1024) | _ \<Rightarrow> ascii ''0.00'')
                         @ ascii '' GB'',
                       lblDisk @ (case getp (nodes ! i) (ascii ''disk_total'') of
                                    JNum m \<Rightarrow> toFixed rt 2 (m / 1024 / 1024 / 1024) | _ \<Rightarrow> ascii ''0.00'')
                         @ ascii '' GB''])"
    if typed: "list_all komariNode nodes"
  proof -
    obtain t where t: "fst (getNodesStatus rt net cfg nowUtc) = Inr (Text t)"
      using getNodesStatus_typed_blocks [OF assms typed] by blast
    obtain ps blocks where b: "t = joinWith (ascii ''\<newline>'') (msgNodesHeader # concat blocks)"
      "length blocks = length nodes"
      "\<forall>i < length nodes. processNode rt nowUtc (nodes ! i) = Inr (ps ! i)
                                  \<and> renderNode rt (ps ! i) = Inr (blocks ! i)"
      using getNodesStatus_text_blocks [OF assms t] by blast
    have "blocks ! i =
                      [[],
                       pin @ iconOffline
                         @ ascii '' '' @ (case getp (nodes ! i) (ascii ''region'') of JStr s \<Rightarrow> s | _ \<Rightarrow> [])
                         @ ascii '' '' @ (case getp (nodes ! i) (ascii ''name'') of JStr s \<Rightarrow> s | _ \<Rightarrow> msgUnknown),
                       lblSystem @ (case getp (nodes ! i) (ascii ''os'') of JStr s \<Rightarrow> s | _ \<Rightarrow> msgUnknown),
                       ascii ''   CPU: ''
                         @ (case getp (nodes ! i) (ascii ''cpu_name'') of JStr s \<Rightarrow> s | _ \<Rightarrow> msgUnknown)
                         @ ascii '' (''
                         @ (case getp (nodes ! i) (ascii ''cpu_cores'') of
                              JNum c \<Rightarrow> numberToString rt c | _ \<Rightarrow> ascii ''0'')
                         @ ascii '' C)'',
                       lblMemory @ (case getp (nodes ! i) (ascii ''mem_total'') of
                                      JNum m \<Rightarrow> toFixed rt 2 (m / 1024 / 1024 / 1024) | _ \<Rightarrow> ascii ''0.00'')
                         @ ascii '' GB'',
                       lblDisk @ (case getp (nodes ! i) (ascii ''disk_total'') of
                                    JNum m \<Rightarrow> toFixed rt 2 (m / 1024 / 1024 / 1024) | _ \<Rightarrow> ascii ''0.00'')
                         @ ascii '' GB'']"
      if i: "i < length nodes" and nu: "\<not> truthy (getp (nodes ! i) (ascii ''updated_at''))"
        and nc: "\<not> truthy (getp (nodes ! i) (ascii ''updated_at_cn''))" for i
    proof -
      have k: "komariNode (nodes ! i)" using typed i by (simp add: list_all_length)
      have stale: "\<not> (\<exists>u t. getp (nodes ! i) (ascii ''updated_at'') = JStr u \<and> u \<noteq> [] \<and>
                             dateParse rt (isoOf u) = Some t \<and> nowUtc - t < 600000)"
        using nu by auto
      from typed_block [OF k, of rt nowUtc] obtain n' upd where
        n': "processNode rt nowUtc (nodes ! i) = Inr n'" and
        r: "renderNode rt n' = Inr ([[],
               pin @ (if (\<exists>u t. getp (nodes ! i) (ascii ''updated_at'') = JStr u \<and> u \<noteq> [] \<and>
                             dateParse rt (isoOf u) = Some t \<and> nowUtc - t < 600000)
                      then iconOnline else iconOffline)
                 @ ascii '' '' @ (case getp (nodes ! i) (ascii ''region'') of JStr s \<Rightarrow> s | _ \<Rightarrow> [])
                 @ ascii '' '' @ (case getp (nodes ! i) (ascii ''name'') of JStr s \<Rightarrow> s | _ \<Rightarrow> msgUnknown),
               lblSystem @ (case getp (nodes ! i) (ascii ''os'') of JStr s \<Rightarrow> s | _ \<Rightarrow> msgUnknown),
               ascii ''   CPU: '' @ (case getp (nodes ! i) (ascii ''cpu_name'') of JStr s \<Rightarrow> s | _ \<Rightarrow> msgUnknown)
                 @ ascii '' ('' @ (case getp (nodes ! i) (ascii ''cpu_cores'') of JNum c \<Rightarrow> numberToString rt c | _ \<Rightarrow> ascii ''0'')
                 @ ascii '' C)'',
               lblMemory @ (case getp (nodes ! i) (ascii ''mem_total'') of
                              JNum m \<Rightarrow> toFixed rt 2 (m / 1024 / 1024 / 1024) | _ \<Rightarrow> ascii ''0.00'')
                 @ ascii '' GB'',
               lblDisk @ (case getp (nodes ! i) (ascii ''disk_total'') of
                            JNum m \<Rightarrow> toFixed rt 2 (m / 1024 / 1024 / 1024) | _ \<Rightarrow> ascii ''0.00'')
                 @ ascii '' GB'']
              @ upd)" and
        e: "\<not> truthy (getp (nodes ! i) (ascii ''updated_at'')) \<and> \<not> truthy (getp (nodes ! i) (ascii ''updated_at_cn''))
          \<longrightarrow> upd = []"
        by blast
      have "ps ! i = n'" using b(3) i n' by auto
      then have "renderNode rt n' = Inr (blocks ! i)" using b(3) i by auto
      moreover have "upd = []" using e nu nc by blast
      ultimately show ?thesis
        using block_exact [OF r] by (simp only: stale if_False)
    qed
    then show ?thesis using t b(1,2) by blast
  qed
  have B: "\<exists>blocks.
                t = joinWith (ascii ''\<newline>'') (msgNodesHeader # concat blocks)
              \<and> length blocks = length nodes
              \<and> (\<forall>i < length nodes. \<forall>kvs.
                    nodes ! i = JObj kvs
                    \<and> \<not> truthy (getp (JObj kvs) (ascii ''updated_at''))
                    \<and> \<not> truthy (getp (JObj kvs) (ascii ''updated_at_cn'')) \<longrightarrow>
                    length (blocks ! i) = 6)"
    if t: "fst (getNodesStatus rt net cfg nowUtc) = Inr (Text t)" for t
  proof -
    obtain ps blocks where b: "t = joinWith (ascii ''\<newline>'') (msgNodesHeader # concat blocks)"
      "length blocks = length nodes"
      "\<forall>i < length nodes. processNode rt nowUtc (nodes ! i) = Inr (ps ! i)
                                  \<and> renderNode rt (ps ! i) = Inr (blocks ! i)"
      using getNodesStatus_text_blocks [OF assms t] by blast
    have "length (blocks ! i) = 6"
      if i: "i < length nodes" and o: "nodes ! i = JObj kvs"
        and nu: "\<not> truthy (getp (JObj kvs) (ascii ''updated_at''))"
        and nc: "\<not> truthy (getp (JObj kvs) (ascii ''updated_at_cn''))" for i kvs
    proof -
      from block_without_timestamp [OF nu nc, of rt nowUtc] obtain n' where
        n': "processNode rt nowUtc (JObj kvs) = Inr n'" and
        l: "\<forall>ls. renderNode rt n' = Inr ls \<longrightarrow> length ls = 6"
        by blast
      have "ps ! i = n'" using b(3) i n' o by auto
      then have "renderNode rt n' = Inr (blocks ! i)" using b(3) i by auto
      then show ?thesis using l by blast
    qed
    then show ?thesis using b(1,2) by blast
  qed
  show ?thesis
    using A B block_without_timestamp [of kvs rt nowUtc] by blast
qed

text \<open>
  Claim C9, on a node without \<open>updated_at\<close> that arrives with an \<open>updated_at_cn\<close> of its
  own. The loop reads \<open>n.updated_at_cn\<close> whoever set it, so the block ends with an update
  line all the same.
\<close>
theorem supplied_updated_at_cn_counterexample:
  "getp (JObj [(ascii ''updated_at_cn'', JStr (ascii ''2024-01-01 08:00:00''))]) (ascii ''updated_at'') = JUndefined
   \<and> bindE (processNode exRuntime 0 (JObj [(ascii ''updated_at_cn'', JStr (ascii ''2024-01-01 08:00:00''))]))
        (renderNode exRuntime) =
      Inr [[],
           pin @ iconOffline @ ascii ''  '' @ msgUnknown,
           lblSystem @ msgUnknown,
           ascii ''   CPU: '' @ msgUnknown @ ascii '' (0 C)'',
           lblMemory @ ascii ''0.00 GB'',
           lblDisk @ ascii ''0.00 GB'',
           lblUpdated @ ascii ''2024-01-01 08:00:00'']"
proof -
  define kvs where "kvs = [(ascii ''updated_at_cn'', JStr (ascii ''2024-01-01 08:00:00''))]"
  define n' where "n' = setp (JObj kvs) (ascii ''is_online'') (JBool False)"
  have k: "ascii ''updated_at_cn'' \<noteq> ascii ''updated_at''" "ascii ''updated_at_cn'' \<noteq> ascii ''name''"
    "ascii ''updated_at_cn'' \<noteq> ascii ''os''" "ascii ''updated_at_cn'' \<noteq> ascii ''cpu_name''"
    "ascii ''updated_at_cn'' \<noteq> ascii ''cpu_cores''" "ascii ''updated_at_cn'' \<noteq> ascii ''region''"
    "ascii ''updated_at_cn'' \<noteq> ascii ''mem_total''" "ascii ''updated_at_cn'' \<noteq> ascii ''disk_total''"
    by (simp_all add: ascii_def)
  have absent: "getp (JObj kvs) (ascii ''updated_at'') = JUndefined"
    using k by (simp add: kvs_def)
  have p: "processNode exRuntime 0 (JObj kvs) = Inr n'"
    unfolding n'_def by (rule processNode_no_timestamp) (simp add: absent del: getp.simps)
  have same: "\<And>k. k \<noteq> ascii ''is_online'' \<Longrightarrow> getp n' k = getp (JObj kvs) k"
    unfolding n'_def by (rule getp_setp_other)
  have cn: "getp n' (ascii ''updated_at_cn'') = JStr (ascii ''2024-01-01 08:00:00'')"
    by (simp only: same key_is_online_neq not_False_eq_True) (simp add: kvs_def)
  have ne: "ascii ''2024-01-01 08:00:00'' \<noteq> []" by (simp add: ascii_def)
  have u: "updatedLine exRuntime n' = Inr [lblUpdated @ ascii ''2024-01-01 08:00:00'']"
    by (simp add: updatedLine_def updatedValue_def Let_def cn ne del: getp.simps)
  have icon: "statusIconOf n' = iconOffline"
    by (simp add: statusIconOf_def n'_def getp_setp_same del: getp.simps setp.simps)
  have nl: "nullish (getp n' (ascii ''name''))" "nullish (getp n' (ascii ''os''))"
    "nullish (getp n' (ascii ''cpu_name''))" "nullish (getp n' (ascii ''cpu_cores''))"
    "nullish (getp n' (ascii ''region''))" "nullish (getp n' (ascii ''mem_total''))"
    "nullish (getp n' (ascii ''disk_total''))"
    using k by (simp_all only: same key_is_online_neq not_False_eq_True) (simp_all add: kvs_def nullish_def)
  have "renderNode exRuntime n' =
      Inr [[],
           pin @ iconOffline @ ascii ''  '' @ msgUnknown,
           lblSystem @ msgUnknown,
           ascii ''   CPU: '' @ msgUnknown @ ascii '' (0 C)'',
           lblMemory @ ascii ''0.00 GB'',
           lblDisk @ ascii ''0.00 GB'',
           lblUpdated @ ascii ''2024-01-01 08:00:00'']"
    by (simp add: renderNode_placeholders [OF nl] u icon)
  then show ?thesis using absent p by (simp add: kvs_def)
qed

theorem no_update_line_without_timestamp_witness:
  "\<exists>blocks.
      fst (getNodesStatus exEngine (exServer exListBody []) exConfig 1704067799999) =
        Inr (Text (joinWith (ascii ''\<newline>'') (msgNodesHeader # concat blocks)))
    \<and> length blocks = 3
    \<and> blocks ! 1 =
        [[], pin @ iconOffline @ ascii '' CN beta'', lblSystem @ ascii ''linux'',
         ascii ''   CPU: EPYC (4 C)'', lblMemory @ ascii ''1.00 GB'', lblDisk @ ascii ''2.00 GB'']
    \<and> blocks ! 2 =
        [[], pin @ iconOffline @ ascii ''  '' @ msgUnknown, lblSystem @ msgUnknown,
         ascii ''   CPU: '' @ msgUnknown @ ascii '' (0 C)'', lblMemory @ ascii ''0.00 GB'',
         lblDisk @ ascii ''0.00 GB'']"
proof -
  note t = no_update_line_without_timestamp
    [OF exConfig_base_not_Nil exServer_nodes respOk_200 exEngine_list exListJson_fields, THEN conjunct1, rule_format, OF _ exList_typed]
  have ne: "[exAlpha, exBeta, exGamma] \<noteq> []" by simp
  have z: "ascii ''2024-01-01T00:00:00Z'' \<noteq> []" by (simp add: ascii_def)
  have g: "(2147483648::rat) / 1024 / 1024 / 1024 = 2" "(1073741824::rat) / 1024 / 1024 / 1024 = 1" by simp_all
  show ?thesis
    using t [OF ne, of "[]" 1704067799999]
    by (simp add: all_below_three exAlpha_fields exBeta_fields exGamma_fields exBeta_shown exGamma_shown z
          numberToString_4 toFixed_2_one toFixed_2_two g ascii_append ascii_append2 del: getp.simps)
       (simp add: numeral_3_eq_3 numeral_2_eq_2)
qed

end
